theory Spec2Isabelle
  imports Complex_Main
begin

section \<open>The removal task of the sprite lifecycle engine\<close>

text \<open>
  This theory embeds \<^verbatim>\<open>runRemoval\<close> of \<^verbatim>\<open>src/lib/tasks/run-removal.ts\<close>.
  A JavaScript number that holds a time or an attribute value is a \<^typ>\<open>real\<close> (NaN and the
  infinities are left out), an array index is a \<^typ>\<open>nat\<close>. Every sprite owns its record of
  properties and its view: the list of sprites holds values, so two slots never share a view.
\<close>

subsection \<open>Dirty ranges\<close>

text \<open>Modelled from the spec: the class \<^verbatim>\<open>NumericRange\<close> of \<^verbatim>\<open>lib/numeric-range\<close> is only
  imported by the source. A range is either undefined or a pair of a low and a high bound.\<close>

type_synonym 'a NumericRange = "('a \<times> 'a) option"

text \<open>Modelled from the spec: \<^verbatim>\<open>isDefined\<close> of \<^verbatim>\<open>NumericRange\<close> reports whether any value has
  been included since the last clear.\<close>

definition isDefined :: "'a NumericRange \<Rightarrow> bool" where
  "isDefined r = (r \<noteq> None)"

text \<open>Modelled from the spec: \<^verbatim>\<open>clear()\<close> of \<^verbatim>\<open>NumericRange\<close> resets the range to undefined.\<close>

definition clear :: "'a NumericRange \<Rightarrow> 'a NumericRange" where
  "clear r = None"

text \<open>Modelled from the spec: \<^verbatim>\<open>expandToInclude(value)\<close> of \<^verbatim>\<open>NumericRange\<close> widens or
  initializes the bounds.\<close>

definition expandToInclude :: "'a::linorder \<Rightarrow> 'a NumericRange \<Rightarrow> 'a NumericRange" where
  "expandToInclude v r =
     (case r of None \<Rightarrow> Some (v, v) | Some (lo, hi) \<Rightarrow> Some (min lo v, max hi v))"

text \<open>Modelled from the spec: \<^verbatim>\<open>lowBound\<close> of \<^verbatim>\<open>NumericRange\<close>. Reading it while the range
  is undefined fails; \<^verbatim>\<open>runRemoval\<close> reads it only after it has checked \<^verbatim>\<open>isDefined\<close>.\<close>

definition lowBound :: "'a NumericRange \<Rightarrow> 'a" where
  "lowBound r = fst (the r)"

text \<open>Modelled from the spec: \<^verbatim>\<open>highBound\<close> of \<^verbatim>\<open>NumericRange\<close>, read like
  \<^verbatim>\<open>lowBound\<close> only while the range is defined.\<close>

definition highBound :: "'a NumericRange \<Rightarrow> 'a" where
  "highBound r = snd (the r)"

text \<open>A range covers a value when the range is defined and the value is between the bounds.\<close>

definition covers :: "'a::linorder NumericRange \<Rightarrow> 'a \<Rightarrow> bool" where
  "covers r v = (case r of None \<Rightarrow> False | Some (lo, hi) \<Rightarrow> lo \<le> v \<and> v \<le> hi)"

subsection \<open>Sprites\<close>

text \<open>Modelled from the spec: the enum \<^verbatim>\<open>LifecyclePhase\<close> of \<^verbatim>\<open>lib/lifecycle-phase\<close> is only
  imported by the source; the phases are those of the lifecycle table of the specification.\<close>

datatype LifecyclePhase = Created | HasCallback | NeedsRebase | NeedsTextureSync | Rest

text \<open>Modelled from the spec: the legal-transition table
  \<^verbatim>\<open>Created -> HasCallback -> NeedsRebase -> NeedsTextureSync -> Rest -> (on exit)
  Rest[toBeRemoved] -> NeedsTextureSync (zeroed) -> Created (free)\<close>.\<close>

fun legalTransition :: "LifecyclePhase \<Rightarrow> LifecyclePhase \<Rightarrow> bool" where
  "legalTransition Created HasCallback = True"
| "legalTransition HasCallback NeedsRebase = True"
| "legalTransition NeedsRebase NeedsTextureSync = True"
| "legalTransition NeedsTextureSync Rest = True"
| "legalTransition Rest NeedsTextureSync = True"
| "legalTransition NeedsTextureSync Created = True"
| "legalTransition _ _ = False"

text \<open>Modelled from the spec: the class \<^verbatim>\<open>SpriteView\<close> of \<^verbatim>\<open>lib/generated/sprite-view\<close> is
  only imported by the source. The source reads its property \<^verbatim>\<open>TransitionTimeMs\<close> and fills
  the array under \<^verbatim>\<open>DataViewSymbol\<close>; the model keeps the two apart, and no property below
  reads \<^verbatim>\<open>TransitionTimeMs\<close> of a view after its array has been filled.\<close>

record SpriteView =
  TransitionTimeMs :: real
  DataView :: "real list"

text \<open>Modelled from the spec: the class of \<^verbatim>\<open>lib/sprite-impl\<close> behind
  \<^verbatim>\<open>sprite[InternalPropertiesSymbol]\<close> is only imported by the source. The record has the
  lifecycle metadata that \<^verbatim>\<open>runRemoval\<close> reads or writes, under the names the source uses;
  \<^verbatim>\<open>undefined\<close> is \<^const>\<open>None\<close>.\<close>

record InternalProperties =
  toBeRemoved :: bool
  lifecyclePhase :: LifecyclePhase
  spriteView :: "SpriteView option"
  index :: "nat option"
  zeroed :: bool

type_synonym SpriteImpl = InternalProperties

text \<open>The test of lines 107 and 147: the sprite is marked for removal and in the phase
  \<^verbatim>\<open>Rest\<close>.\<close>

definition eligible :: "SpriteImpl \<Rightarrow> bool" where
  "eligible p = (toBeRemoved p \<and> lifecyclePhase p = Rest)"

text \<open>A sprite is due at a time when the main loop would flash it at that time: it passes
  the tests of lines 107 and 112, and its transition time is not in the future.\<close>

definition due :: "real \<Rightarrow> SpriteImpl \<Rightarrow> bool" where
  "due currentTimeMs p =
     (eligible p \<and> index p \<noteq> None \<and>
      (case spriteView p of None \<Rightarrow> False | Some v \<Rightarrow> TransitionTimeMs v \<le> currentTimeMs))"

text \<open>The three writes of lines 128 to 130, as one function of the properties.\<close>

definition flashed :: "SpriteImpl \<Rightarrow> SpriteImpl" where
  "flashed p =
     p\<lparr>spriteView :=
         map_option (\<lambda>v. v\<lparr>DataView := replicate (length (DataView v)) 0\<rparr>) (spriteView p),
       zeroed := True,
       lifecyclePhase := NeedsTextureSync\<rparr>"

text \<open>The slots whose properties differ between two states of the sprite array.\<close>

definition mutated :: "SpriteImpl list \<Rightarrow> SpriteImpl list \<Rightarrow> nat set" where
  "mutated xs ys = set (filter (\<lambda>j. ys ! j \<noteq> xs ! j) [0..<length xs])"

subsection \<open>The coordinator\<close>

text \<open>\<^verbatim>\<open>CoordinatorAPI\<close>. \<open>elapsedTimeMs\<close> is the value that the call \<^verbatim>\<open>elapsedTimeMs()\<close> of
  this invocation returns. The callbacks \<^verbatim>\<open>queueRemovalTask\<close> and \<^verbatim>\<open>queueTextureSync\<close> are
  opaque; the model counts their calls.\<close>

record CoordinatorAPI =
  elapsedTimeMs :: real
  needsTextureSyncIndexRange :: "nat NumericRange"
  queueRemovalTask :: nat
  queueTextureSync :: nat
  sprites :: "SpriteImpl list"
  toBeRemovedIndexRange :: "nat NumericRange"
  toBeRemovedTsRange :: "real NumericRange"

text \<open>What \<^verbatim>\<open>runRemoval\<close> can raise: an \<^verbatim>\<open>InternalError\<close> with its message, or the
  \<^verbatim>\<open>TypeError\<close> of a property read on \<^verbatim>\<open>undefined\<close>.\<close>

datatype error = InternalError string | TypeError

subsection \<open>The main loop\<close>

text \<open>The local variables of one invocation, with the coordinator they act on.
  \<open>indexVar\<close> is \<^verbatim>\<open>index\<close>, \<open>step\<close> is \<^verbatim>\<open>step\<close>, \<open>iVar\<close> is the \<^verbatim>\<open>i\<close> of the cleanup, and
  \<open>remainingCalls\<close> counts the calls of \<^verbatim>\<open>remaining()\<close> made so far (the callback is a
  function of that count). Three history variables, which no branch reads, record the run:
  \<open>visited\<close> holds the values \<^verbatim>\<open>currentIndex\<close> has taken in the main loop, \<open>scanned\<close> the values
  of \<^verbatim>\<open>i\<close> at which the body of the cleanup loop has run, and \<open>readded\<close> those of them that
  the cleanup loop has put back into the to-be-removed ranges.\<close>

record Locals =
  coordinator :: CoordinatorAPI
  indexVar :: nat
  step :: nat
  remainingCalls :: nat
  iVar :: nat
  visited :: "nat list"
  scanned :: "nat list"
  readded :: "nat list"

datatype completion = Continue | Break | Throw error

text \<open>One turn of \<^verbatim>\<open>while (index <= highIndex)\<close>, lines 96 to 136. Reading
  \<^verbatim>\<open>coordinator.sprites[currentIndex]\<close> past the end of the array gives \<^verbatim>\<open>undefined\<close>, and
  the property access on it raises a \<^verbatim>\<open>TypeError\<close>. \<^verbatim>\<open>step % 0\<close> is NaN, which is never
  \<^verbatim>\<open>=== 0\<close>.\<close>

definition loopBody :: "(nat \<Rightarrow> real) \<Rightarrow> nat \<Rightarrow> real \<Rightarrow> Locals \<Rightarrow> completion \<times> Locals" where
  "loopBody remaining stepsBetweenChecks currentTimeMs l =
     (let currentIndex = indexVar l;
          c = coordinator l;
          l1 = l\<lparr>indexVar := indexVar l + 1, visited := visited l @ [currentIndex]\<rparr>
      in if length (sprites c) \<le> currentIndex then (Throw TypeError, l1)
         else
           let properties = sprites c ! currentIndex
           in if \<not> toBeRemoved properties \<or> lifecyclePhase properties \<noteq> Rest
              then (Continue, l1)
              else
                (case spriteView properties of
                   None \<Rightarrow> (Throw (InternalError ''Sprite missing required properties''), l1)
                 | Some v \<Rightarrow>
                     (case index properties of
                        None \<Rightarrow>
                          (Throw (InternalError ''Sprite missing required properties''), l1)
                      | Some n \<Rightarrow>
                          if TransitionTimeMs v > currentTimeMs
                          then (Continue,
                                l1\<lparr>coordinator := c
                                  \<lparr>toBeRemovedIndexRange :=
                                     expandToInclude currentIndex (toBeRemovedIndexRange c),
                                   toBeRemovedTsRange :=
                                     expandToInclude (TransitionTimeMs v) (toBeRemovedTsRange c)\<rparr>\<rparr>)
                          else
                            let c' = c
                                  \<lparr>sprites := (sprites c)[currentIndex := properties
                                     \<lparr>spriteView :=
                                        Some (v\<lparr>DataView := replicate (length (DataView v)) 0\<rparr>),
                                      zeroed := True,
                                      lifecyclePhase := NeedsTextureSync\<rparr>],
                                   needsTextureSyncIndexRange :=
                                     expandToInclude n (needsTextureSyncIndexRange c)\<rparr>;
                                check = (stepsBetweenChecks \<noteq> 0 \<and>
                                         step l mod stepsBetweenChecks = 0);
                                l2 = l1\<lparr>coordinator := c', step := step l + 1,
                                        remainingCalls :=
                                          (if check then remainingCalls l + 1
                                           else remainingCalls l)\<rparr>
                            in if check \<and> remaining (remainingCalls l) \<le> 0
                               then (Break, l2) else (Continue, l2))))"

text \<open>The loop of lines 95 to 137: the exception that left the \<^verbatim>\<open>try\<close> block, if any, and
  the locals at that point.\<close>

function mainLoop ::
  "(nat \<Rightarrow> real) \<Rightarrow> nat \<Rightarrow> real \<Rightarrow> nat \<Rightarrow> Locals \<Rightarrow> error option \<times> Locals" where
  "mainLoop remaining stepsBetweenChecks currentTimeMs highIndex l =
     (if indexVar l \<le> highIndex
      then (case loopBody remaining stepsBetweenChecks currentTimeMs l of
              (Continue, l') \<Rightarrow> mainLoop remaining stepsBetweenChecks currentTimeMs highIndex l'
            | (Break, l') \<Rightarrow> (None, l')
            | (Throw e, l') \<Rightarrow> (Some e, l'))
      else (None, l))"
  by pat_completeness auto
termination
  by (relation "measure (\<lambda>(remaining, stepsBetweenChecks, currentTimeMs, highIndex, l).
                  Suc highIndex - indexVar l)")
     (auto simp: loopBody_def Let_def split: if_splits option.splits)

subsection \<open>The cleanup and the task\<close>

text \<open>One turn of \<^verbatim>\<open>for (let i = index; i <= highIndex; i++)\<close>, lines 142 to 162: the
  exception it raises, if any, and the locals after it.\<close>

definition cleanupBody :: "Locals \<Rightarrow> error option \<times> Locals" where
  "cleanupBody l =
     (let i = iVar l;
          c = coordinator l;
          l1 = l\<lparr>scanned := scanned l @ [i]\<rparr>
      in if length (sprites c) \<le> i then (Some TypeError, l1)
         else
           let properties = sprites c ! i
           in if \<not> toBeRemoved properties \<or> lifecyclePhase properties \<noteq> Rest
              then (None, l1\<lparr>iVar := i + 1\<rparr>)
              else
                (case spriteView properties of
                   None \<Rightarrow> (Some (InternalError ''Sprite lacks a SpriteView''), l1)
                 | Some v \<Rightarrow>
                     (None,
                      l1\<lparr>coordinator := c
                          \<lparr>toBeRemovedIndexRange :=
                             expandToInclude i (toBeRemovedIndexRange c),
                           toBeRemovedTsRange :=
                             expandToInclude (TransitionTimeMs v) (toBeRemovedTsRange c)\<rparr>,
                         iVar := i + 1,
                         readded := readded l @ [i]\<rparr>)))"

function cleanupLoop :: "nat \<Rightarrow> Locals \<Rightarrow> error option \<times> Locals" where
  "cleanupLoop highIndex l =
     (if iVar l \<le> highIndex
      then (case cleanupBody l of
              (None, l') \<Rightarrow> cleanupLoop highIndex l'
            | (Some e, l') \<Rightarrow> (Some e, l'))
      else (None, l))"
  by pat_completeness auto
termination
  by (relation "measure (\<lambda>(highIndex, l). Suc highIndex - iVar l)")
     (auto simp: cleanupBody_def Let_def split: if_splits option.splits)

text \<open>The \<^verbatim>\<open>finally\<close> block, lines 138 to 174. An exception of the cleanup loop leaves the
  block at once, before the two tasks are queued.\<close>

definition finallyBlock :: "nat \<Rightarrow> Locals \<Rightarrow> error option \<times> Locals" where
  "finallyBlock highIndex l =
     (case cleanupLoop highIndex (l\<lparr>iVar := indexVar l\<rparr>) of
        (Some e, l') \<Rightarrow> (Some e, l')
      | (None, l') \<Rightarrow>
          let c = coordinator l';
              c1 = (if isDefined (needsTextureSyncIndexRange c)
                    then c\<lparr>queueTextureSync := queueTextureSync c + 1\<rparr> else c);
              c2 = (if isDefined (toBeRemovedIndexRange c1)
                    then c1\<lparr>queueRemovalTask := queueRemovalTask c1 + 1\<rparr> else c1)
          in (None, l'\<lparr>coordinator := c2\<rparr>))"

text \<open>What one invocation gives: the exception that \<^verbatim>\<open>runRemoval\<close> raises, if any, and the
  coordinator it leaves. Three more history fields: the exception that left the \<^verbatim>\<open>try\<close>
  block, the exception that left the \<^verbatim>\<open>finally\<close> block, and the locals at the end of
  the \<^verbatim>\<open>finally\<close> block when the invocation got as far as the \<^verbatim>\<open>try\<close> statement.\<close>

record Outcome =
  thrown :: "error option"
  final :: CoordinatorAPI
  thrownInTry :: "error option"
  thrownInFinally :: "error option"
  locals :: "Locals option"

text \<open>\<^verbatim>\<open>runRemoval(coordinator, remaining, stepsBetweenChecks)\<close>. An exception raised in the
  \<^verbatim>\<open>finally\<close> block replaces the one that left the \<^verbatim>\<open>try\<close> block; when the
  \<^verbatim>\<open>finally\<close> block completes, the exception of the \<^verbatim>\<open>try\<close> block goes on to the caller.\<close>

definition runRemoval :: "CoordinatorAPI \<Rightarrow> (nat \<Rightarrow> real) \<Rightarrow> nat \<Rightarrow> Outcome" where
  "runRemoval c remaining stepsBetweenChecks =
     (if \<not> isDefined (toBeRemovedIndexRange c) \<or> \<not> isDefined (toBeRemovedTsRange c)
      then \<lparr>thrown = Some (InternalError ''No sprites are queued for removal''),
            final = c, thrownInTry = None, thrownInFinally = None, locals = None\<rparr>
      else
        let currentTimeMs = elapsedTimeMs c;
            lowTs = lowBound (toBeRemovedTsRange c)
        in if currentTimeMs < lowTs
           then \<lparr>thrown = None, final = c\<lparr>queueRemovalTask := queueRemovalTask c + 1\<rparr>,
                 thrownInTry = None, thrownInFinally = None, locals = None\<rparr>
           else
             let lowIndex = lowBound (toBeRemovedIndexRange c);
                 highIndex = highBound (toBeRemovedIndexRange c);
                 c0 = c\<lparr>toBeRemovedIndexRange := clear (toBeRemovedIndexRange c),
                        toBeRemovedTsRange := clear (toBeRemovedTsRange c)\<rparr>;
                 l0 = \<lparr>coordinator = c0, indexVar = lowIndex, step = 1, remainingCalls = 0,
                       iVar = lowIndex, visited = [], scanned = [], readded = []\<rparr>;
                 (e1, l1) = mainLoop remaining stepsBetweenChecks currentTimeMs highIndex l0;
                 (e2, l2) = finallyBlock highIndex l1
             in \<lparr>thrown = (case e2 of Some e \<Rightarrow> Some e | None \<Rightarrow> e1),
                 final = coordinator l2, thrownInTry = e1, thrownInFinally = e2,
                 locals = Some l2\<rparr>)"

subsection \<open>Example states\<close>

text \<open>Two \<^verbatim>\<open>remaining()\<close> callbacks: one that always has a millisecond left, and one that
  has none from its first call on.\<close>

definition unlimitedBudget :: "nat \<Rightarrow> real" where
  "unlimitedBudget n = 1"

definition exhaustedBudget :: "nat \<Rightarrow> real" where
  "exhaustedBudget n = 0"

text \<open>A sprite with a view of three attributes, the given flags and transition time.\<close>

definition exampleSprite :: "bool \<Rightarrow> LifecyclePhase \<Rightarrow> real \<Rightarrow> nat \<Rightarrow> SpriteImpl" where
  "exampleSprite tbr phase t n =
     \<lparr>toBeRemoved = tbr, lifecyclePhase = phase,
      spriteView = Some \<lparr>TransitionTimeMs = t, DataView = [t, 1, 2]\<rparr>,
      index = Some n, zeroed = False\<rparr>"

text \<open>Three sprites that wait for removal at time 10: the first and the last are due, the
  second has 10 ms to go.\<close>

definition exampleCoordinator :: CoordinatorAPI where
  "exampleCoordinator =
     \<lparr>elapsedTimeMs = 10, needsTextureSyncIndexRange = None, queueRemovalTask = 0,
      queueTextureSync = 0,
      sprites = [exampleSprite True Rest 5 0, exampleSprite True Rest 20 1,
                 exampleSprite True Rest 7 2],
      toBeRemovedIndexRange = Some (0, 2), toBeRemovedTsRange = Some (5, 20)\<rparr>"

text \<open>One sprite, due at time 10: a run drains the to-be-removed ranges.\<close>

definition drainedCoordinator :: CoordinatorAPI where
  "drainedCoordinator =
     \<lparr>elapsedTimeMs = 10, needsTextureSyncIndexRange = None, queueRemovalTask = 0,
      queueTextureSync = 0, sprites = [exampleSprite True Rest 5 0],
      toBeRemovedIndexRange = Some (0, 0), toBeRemovedTsRange = Some (5, 5)\<rparr>"

text \<open>The same sprite, but the timestamp range starts at 100: the run at time 10 stops at
  the test of line 76.\<close>

definition gatedCoordinator :: CoordinatorAPI where
  "gatedCoordinator = drainedCoordinator\<lparr>toBeRemovedTsRange := Some (100, 100)\<rparr>"

text \<open>A sprite in the phase \<^verbatim>\<open>Rest\<close>, marked for removal, that has no view.\<close>

definition viewlessSprite :: "nat \<Rightarrow> SpriteImpl" where
  "viewlessSprite n =
     \<lparr>toBeRemoved = True, lifecyclePhase = Rest, spriteView = None, index = Some n,
      zeroed = False\<rparr>"

text \<open>The main loop meets the sprite without a view first.\<close>

definition faultyCoordinator :: CoordinatorAPI where
  "faultyCoordinator =
     exampleCoordinator
       \<lparr>sprites := [viewlessSprite 0, exampleSprite True Rest 5 1, exampleSprite True Rest 20 2]\<rparr>"

text \<open>The same sprites, with an index range that reaches past the end of the sprite
  array.\<close>

definition overrunCoordinator :: CoordinatorAPI where
  "overrunCoordinator = faultyCoordinator\<lparr>toBeRemovedIndexRange := Some (0, 5)\<rparr>"

text \<open>The sprite without a view comes second: with no budget left, the main loop stops after
  the first sprite and the cleanup meets it.\<close>

definition brokenCoordinator :: CoordinatorAPI where
  "brokenCoordinator =
     exampleCoordinator
       \<lparr>sprites := [exampleSprite True Rest 5 0, viewlessSprite 1, exampleSprite True Rest 20 2]\<rparr>"

text \<open>The second sprite is marked for removal while it still waits for its rebase.\<close>

definition rebasingCoordinator :: CoordinatorAPI where
  "rebasingCoordinator =
     exampleCoordinator
       \<lparr>sprites := [exampleSprite True Rest 5 0, exampleSprite True NeedsRebase 20 1,
                   exampleSprite True Rest 7 2]\<rparr>"

text \<open>A sprite that is not due yet and whose index property is undefined.\<close>

definition indexlessCoordinator :: CoordinatorAPI where
  "indexlessCoordinator =
     \<lparr>elapsedTimeMs = 10, needsTextureSyncIndexRange = None, queueRemovalTask = 0,
      queueTextureSync = 0, sprites = [(exampleSprite True Rest 20 0)\<lparr>index := None\<rparr>],
      toBeRemovedIndexRange = Some (0, 0), toBeRemovedTsRange = Some (5, 20)\<rparr>"

text \<open>A sprite that has been bound again and is no longer marked for removal, and a sprite
  that is not due yet, while another task has left the needs-texture-sync range defined.\<close>

definition syncPendingCoordinator :: CoordinatorAPI where
  "syncPendingCoordinator =
     \<lparr>elapsedTimeMs = 10, needsTextureSyncIndexRange = Some (3, 3), queueRemovalTask = 0,
      queueTextureSync = 0,
      sprites = [exampleSprite False Rest 5 0, exampleSprite True Rest 20 1],
      toBeRemovedIndexRange = Some (0, 1), toBeRemovedTsRange = Some (5, 20)\<rparr>"

section \<open>Properties\<close>

subsection \<open>Ranges\<close>

lemma covers_expand: "covers r x \<Longrightarrow> covers (expandToInclude v r) x"
  by (cases r) (auto simp: covers_def expandToInclude_def min_def max_def)

lemma covers_expand_self: "covers (expandToInclude v r) v"
  by (auto simp: covers_def expandToInclude_def split: option.splits)

lemma isDefined_expand: "isDefined (expandToInclude v r)"
  by (auto simp: isDefined_def expandToInclude_def split: option.splits)

lemma covers_isDefined: "covers r x \<Longrightarrow> isDefined r"
  by (cases r) (auto simp: covers_def isDefined_def)

lemma loopBody_cases [consumes 1, case_names oob skip fault pending flash_break flash]:
  assumes "loopBody remaining stepsBetweenChecks currentTimeMs l = (k, l1)"
  obtains
    "length (sprites (coordinator l)) \<le> indexVar l" "k = Throw TypeError"
      "l1 = l\<lparr>indexVar := Suc (indexVar l), visited := visited l @ [indexVar l]\<rparr>"
  | "indexVar l < length (sprites (coordinator l))"
      "\<not> eligible (sprites (coordinator l) ! indexVar l)" "k = Continue"
      "l1 = l\<lparr>indexVar := Suc (indexVar l), visited := visited l @ [indexVar l]\<rparr>"
  | "indexVar l < length (sprites (coordinator l))"
      "eligible (sprites (coordinator l) ! indexVar l)"
      "spriteView (sprites (coordinator l) ! indexVar l) = None \<or>
       index (sprites (coordinator l) ! indexVar l) = None"
      "k = Throw (InternalError ''Sprite missing required properties'')"
      "l1 = l\<lparr>indexVar := Suc (indexVar l), visited := visited l @ [indexVar l]\<rparr>"
  | v n where "indexVar l < length (sprites (coordinator l))"
      "eligible (sprites (coordinator l) ! indexVar l)"
      "spriteView (sprites (coordinator l) ! indexVar l) = Some v"
      "index (sprites (coordinator l) ! indexVar l) = Some n"
      "currentTimeMs < TransitionTimeMs v" "k = Continue"
      "l1 = l\<lparr>indexVar := Suc (indexVar l), visited := visited l @ [indexVar l],
         coordinator := (coordinator l)
           \<lparr>toBeRemovedIndexRange :=
              expandToInclude (indexVar l) (toBeRemovedIndexRange (coordinator l)),
            toBeRemovedTsRange :=
              expandToInclude (TransitionTimeMs v) (toBeRemovedTsRange (coordinator l))\<rparr>\<rparr>"
  | v n where "indexVar l < length (sprites (coordinator l))"
      "eligible (sprites (coordinator l) ! indexVar l)"
      "spriteView (sprites (coordinator l) ! indexVar l) = Some v"
      "index (sprites (coordinator l) ! indexVar l) = Some n"
      "TransitionTimeMs v \<le> currentTimeMs" "k = Break"
      "stepsBetweenChecks \<noteq> 0" "step l mod stepsBetweenChecks = 0"
      "remaining (remainingCalls l) \<le> 0"
      "l1 = l\<lparr>indexVar := Suc (indexVar l), visited := visited l @ [indexVar l],
         coordinator := (coordinator l)
           \<lparr>sprites := (sprites (coordinator l))[indexVar l :=
              (sprites (coordinator l) ! indexVar l)
                \<lparr>spriteView := Some (v\<lparr>DataView := replicate (length (DataView v)) 0\<rparr>),
                 zeroed := True, lifecyclePhase := NeedsTextureSync\<rparr>],
            needsTextureSyncIndexRange :=
              expandToInclude n (needsTextureSyncIndexRange (coordinator l))\<rparr>,
         step := Suc (step l), remainingCalls := Suc (remainingCalls l)\<rparr>"
  | v n where "indexVar l < length (sprites (coordinator l))"
      "eligible (sprites (coordinator l) ! indexVar l)"
      "spriteView (sprites (coordinator l) ! indexVar l) = Some v"
      "index (sprites (coordinator l) ! indexVar l) = Some n"
      "TransitionTimeMs v \<le> currentTimeMs" "k = Continue"
      "\<not> (stepsBetweenChecks \<noteq> 0 \<and> step l mod stepsBetweenChecks = 0 \<and>
          remaining (remainingCalls l) \<le> 0)"
      "l1 = l\<lparr>indexVar := Suc (indexVar l), visited := visited l @ [indexVar l],
         coordinator := (coordinator l)
           \<lparr>sprites := (sprites (coordinator l))[indexVar l :=
              (sprites (coordinator l) ! indexVar l)
                \<lparr>spriteView := Some (v\<lparr>DataView := replicate (length (DataView v)) 0\<rparr>),
                 zeroed := True, lifecyclePhase := NeedsTextureSync\<rparr>],
            needsTextureSyncIndexRange :=
              expandToInclude n (needsTextureSyncIndexRange (coordinator l))\<rparr>,
         step := Suc (step l),
         remainingCalls := (if stepsBetweenChecks \<noteq> 0 \<and> step l mod stepsBetweenChecks = 0
                            then Suc (remainingCalls l) else remainingCalls l)\<rparr>"
  using assms unfolding loopBody_def Let_def eligible_def
  by (auto split: if_splits option.splits)

subsection \<open>The main loop, turn by turn\<close>

lemma loopBody_indexVar:
  "loopBody remaining stepsBetweenChecks currentTimeMs l = (k, l1) \<Longrightarrow>
   indexVar l1 = Suc (indexVar l)"
  by (erule loopBody_cases) simp_all

declare mainLoop.simps [simp del]

lemma mainLoop_rule [consumes 1, case_names exit halt turn]:
  assumes run: "mainLoop remaining stepsBetweenChecks currentTimeMs highIndex l = (e, l')"
    and exit: "\<And>l. \<not> indexVar l \<le> highIndex \<Longrightarrow> P l None l"
    and halt: "\<And>l k l1. indexVar l \<le> highIndex \<Longrightarrow>
        loopBody remaining stepsBetweenChecks currentTimeMs l = (k, l1) \<Longrightarrow> k \<noteq> Continue \<Longrightarrow>
        P l (case k of Throw x \<Rightarrow> Some x | _ \<Rightarrow> None) l1"
    and turn: "\<And>l l1 e l'. indexVar l \<le> highIndex \<Longrightarrow>
        loopBody remaining stepsBetweenChecks currentTimeMs l = (Continue, l1) \<Longrightarrow>
        mainLoop remaining stepsBetweenChecks currentTimeMs highIndex l1 = (e, l') \<Longrightarrow>
        P l1 e l' \<Longrightarrow> P l e l'"
  shows "P l e l'"
  using run
proof (induction "Suc highIndex - indexVar l" arbitrary: l e l' rule: less_induct)
  case less
  show ?case
  proof (cases "indexVar l \<le> highIndex")
    case False
    with less.prems have "e = None" and "l' = l"
      by (simp_all add: mainLoop.simps)
    with exit [OF False] show ?thesis by simp
  next
    case True
    obtain k l1 where body: "loopBody remaining stepsBetweenChecks currentTimeMs l = (k, l1)"
      by (cases "loopBody remaining stepsBetweenChecks currentTimeMs l")
    show ?thesis
    proof (cases k)
      case Continue
      with True body less.prems
      have rest: "mainLoop remaining stepsBetweenChecks currentTimeMs highIndex l1 = (e, l')"
        by (simp add: mainLoop.simps [of _ _ _ _ l])
      from body have "indexVar l1 = Suc (indexVar l)"
        by (rule loopBody_indexVar)
      with True have "Suc highIndex - indexVar l1 < Suc highIndex - indexVar l"
        by simp
      from less.hyps [OF this rest] have "P l1 e l'" .
      with True body Continue rest turn show ?thesis by blast
    next
      case Break
      with True body less.prems halt [OF True body] show ?thesis
        by (simp add: mainLoop.simps [of _ _ _ _ l])
    next
      case (Throw x)
      with True body less.prems halt [OF True body] show ?thesis
        by (simp add: mainLoop.simps [of _ _ _ _ l])
    qed
  qed
qed

lemma loopBody_step:
  assumes "loopBody remaining stepsBetweenChecks currentTimeMs l = (k, l1)"
  shows "indexVar l1 = Suc (indexVar l)"
    and "visited l1 = visited l @ [indexVar l]"
    and "iVar l1 = iVar l" and "scanned l1 = scanned l" and "readded l1 = readded l"
    and "length (sprites (coordinator l1)) = length (sprites (coordinator l))"
    and "elapsedTimeMs (coordinator l1) = elapsedTimeMs (coordinator l)"
    and "queueRemovalTask (coordinator l1) = queueRemovalTask (coordinator l)"
    and "queueTextureSync (coordinator l1) = queueTextureSync (coordinator l)"
    and "j \<noteq> indexVar l \<Longrightarrow> sprites (coordinator l1) ! j = sprites (coordinator l) ! j"
    and "covers (toBeRemovedIndexRange (coordinator l)) x \<Longrightarrow>
         covers (toBeRemovedIndexRange (coordinator l1)) x"
    and "covers (toBeRemovedTsRange (coordinator l)) t \<Longrightarrow>
         covers (toBeRemovedTsRange (coordinator l1)) t"
    and "covers (needsTextureSyncIndexRange (coordinator l)) x \<Longrightarrow>
         covers (needsTextureSyncIndexRange (coordinator l1)) x"
    and "isDefined (toBeRemovedIndexRange (coordinator l)) =
           isDefined (toBeRemovedTsRange (coordinator l)) \<Longrightarrow>
         isDefined (toBeRemovedIndexRange (coordinator l1)) =
           isDefined (toBeRemovedTsRange (coordinator l1))"
  using assms
  by (cases rule: loopBody_cases; simp add: covers_expand isDefined_expand)+

lemma loopBody_at:
  assumes "loopBody remaining stepsBetweenChecks currentTimeMs l = (k, l1)"
    and "indexVar l < length (sprites (coordinator l))"
  shows "if due currentTimeMs (sprites (coordinator l) ! indexVar l)
         then sprites (coordinator l1) ! indexVar l = flashed (sprites (coordinator l) ! indexVar l) \<and>
              covers (needsTextureSyncIndexRange (coordinator l1))
                (the (index (sprites (coordinator l) ! indexVar l))) \<and>
              step l1 = Suc (step l)
         else sprites (coordinator l1) ! indexVar l = sprites (coordinator l) ! indexVar l \<and>
              needsTextureSyncIndexRange (coordinator l1) = needsTextureSyncIndexRange (coordinator l) \<and>
              step l1 = step l"
  using assms
  by (cases rule: loopBody_cases) (auto simp: due_def flashed_def covers_expand_self)

lemma loopBody_pending:
  assumes "loopBody remaining stepsBetweenChecks currentTimeMs l = (k, l1)"
    and "indexVar l < length (sprites (coordinator l))"
    and "eligible (sprites (coordinator l) ! indexVar l)"
    and "spriteView (sprites (coordinator l) ! indexVar l) = Some v"
    and "index (sprites (coordinator l) ! indexVar l) \<noteq> None"
    and "currentTimeMs < TransitionTimeMs v"
  shows "k = Continue \<and> covers (toBeRemovedIndexRange (coordinator l1)) (indexVar l) \<and>
         covers (toBeRemovedTsRange (coordinator l1)) (TransitionTimeMs v)"
  using assms by (cases rule: loopBody_cases) (auto simp: covers_expand_self)

lemma loopBody_fault:
  assumes "loopBody remaining stepsBetweenChecks currentTimeMs l = (k, l1)"
    and "indexVar l < length (sprites (coordinator l))"
    and "eligible (sprites (coordinator l) ! indexVar l)"
    and "spriteView (sprites (coordinator l) ! indexVar l) = None \<or>
         index (sprites (coordinator l) ! indexVar l) = None"
  shows "k = Throw (InternalError ''Sprite missing required properties'')"
  using assms by (cases rule: loopBody_cases) auto

lemma loopBody_Break:
  assumes "loopBody remaining stepsBetweenChecks currentTimeMs l = (Break, l1)"
  shows "stepsBetweenChecks \<noteq> 0 \<and> step l mod stepsBetweenChecks = 0 \<and>
         remaining (remainingCalls l) \<le> 0 \<and>
         indexVar l < length (sprites (coordinator l)) \<and>
         due currentTimeMs (sprites (coordinator l) ! indexVar l)"
  using assms by (cases rule: loopBody_cases) (auto simp: due_def)

lemma loopBody_Continue_due:
  assumes "loopBody remaining stepsBetweenChecks currentTimeMs l = (Continue, l1)"
    and "indexVar l < length (sprites (coordinator l))"
    and "due currentTimeMs (sprites (coordinator l) ! indexVar l)"
  shows "\<not> (stepsBetweenChecks \<noteq> 0 \<and> step l mod stepsBetweenChecks = 0 \<and>
            remaining (remainingCalls l) \<le> 0)"
  using assms by (cases rule: loopBody_cases) (auto simp: due_def)

subsection \<open>The main loop as a whole\<close>

lemma mainLoop_fields:
  assumes "mainLoop remaining stepsBetweenChecks currentTimeMs highIndex l = (e, l')"
  shows "length (sprites (coordinator l')) = length (sprites (coordinator l)) \<and>
         elapsedTimeMs (coordinator l') = elapsedTimeMs (coordinator l) \<and>
         queueRemovalTask (coordinator l') = queueRemovalTask (coordinator l) \<and>
         queueTextureSync (coordinator l') = queueTextureSync (coordinator l) \<and>
         iVar l' = iVar l \<and> scanned l' = scanned l \<and> readded l' = readded l"
  using assms
proof (induction rule: mainLoop_rule)
  case (exit l)
  show ?case by simp
next
  case (halt l k l1)
  note st = loopBody_step [OF halt(2)]
  from halt show ?case by (simp add: st)
next
  case (turn l l1 e l')
  note st = loopBody_step [OF turn(2)]
  from turn show ?case by (simp add: st)
qed

lemma mainLoop_indexVar:
  assumes "mainLoop remaining stepsBetweenChecks currentTimeMs highIndex l = (e, l')"
  shows "indexVar l \<le> indexVar l' \<and>
         (indexVar l \<le> Suc highIndex \<longrightarrow> indexVar l' \<le> Suc highIndex) \<and>
         visited l' = visited l @ [indexVar l ..< indexVar l']"
  using assms
proof (induction rule: mainLoop_rule)
  case (exit l)
  show ?case by simp
next
  case (halt l k l1)
  note st = loopBody_step [OF halt(2)]
  from halt show ?case by (simp add: st)
next
  case (turn l l1 e l')
  note st = loopBody_step [OF turn(2)]
  from turn show ?case by (simp add: st upt_conv_Cons)
qed

lemma mainLoop_outside:
  assumes "mainLoop remaining stepsBetweenChecks currentTimeMs highIndex l = (e, l')"
    and "j < indexVar l \<or> indexVar l' \<le> j"
  shows "sprites (coordinator l') ! j = sprites (coordinator l) ! j"
  using assms
proof (induction rule: mainLoop_rule)
  case (exit l)
  show ?case by simp
next
  case (halt l k l1)
  note st = loopBody_step [OF halt(2)]
  from halt show ?case by (auto simp: st)
next
  case (turn l l1 e l')
  note st = loopBody_step [OF turn(2)]
  from turn(3) have "indexVar l1 \<le> indexVar l'"
    by (simp add: mainLoop_indexVar)
  with turn(2) have "Suc (indexVar l) \<le> indexVar l'"
    by (simp add: st)
  with turn(5) have "j \<noteq> indexVar l" and "j < indexVar l1 \<or> indexVar l' \<le> j"
    using turn(2) by (auto simp: st)
  with turn(2,4) show ?case by (simp add: st)
qed

lemma mainLoop_covers:
  assumes "mainLoop remaining stepsBetweenChecks currentTimeMs highIndex l = (e, l')"
  shows "(covers (toBeRemovedIndexRange (coordinator l)) x \<longrightarrow>
          covers (toBeRemovedIndexRange (coordinator l')) x) \<and>
         (covers (toBeRemovedTsRange (coordinator l)) t \<longrightarrow>
          covers (toBeRemovedTsRange (coordinator l')) t) \<and>
         (covers (needsTextureSyncIndexRange (coordinator l)) x \<longrightarrow>
          covers (needsTextureSyncIndexRange (coordinator l')) x)"
  using assms
proof (induction rule: mainLoop_rule)
  case (exit l)
  show ?case by simp
next
  case (halt l k l1)
  note st = loopBody_step [OF halt(2)]
  from halt show ?case by (simp add: st)
next
  case (turn l l1 e l')
  note st = loopBody_step [OF turn(2)]
  from turn show ?case by (simp add: st)
qed

lemma mainLoop_together:
  assumes "mainLoop remaining stepsBetweenChecks currentTimeMs highIndex l = (e, l')"
    and "isDefined (toBeRemovedIndexRange (coordinator l)) =
         isDefined (toBeRemovedTsRange (coordinator l))"
  shows "isDefined (toBeRemovedIndexRange (coordinator l')) =
         isDefined (toBeRemovedTsRange (coordinator l'))"
  using assms
proof (induction rule: mainLoop_rule)
  case (exit l)
  then show ?case by simp
next
  case (halt l k l1)
  note st = loopBody_step [OF halt(2)]
  from halt show ?case by (simp add: st)
next
  case (turn l l1 e l')
  note st = loopBody_step [OF turn(2)]
  from turn show ?case by (simp add: st)
qed

lemma mainLoop_visit:
  assumes "mainLoop remaining stepsBetweenChecks currentTimeMs highIndex l = (e, l')"
    and "indexVar l \<le> j" and "j < indexVar l'" and "j < length (sprites (coordinator l))"
  shows "if due currentTimeMs (sprites (coordinator l) ! j)
         then sprites (coordinator l') ! j = flashed (sprites (coordinator l) ! j) \<and>
              covers (needsTextureSyncIndexRange (coordinator l'))
                (the (index (sprites (coordinator l) ! j)))
         else sprites (coordinator l') ! j = sprites (coordinator l) ! j"
  using assms
proof (induction rule: mainLoop_rule)
  case (exit l)
  then show ?case by simp
next
  case (halt l k l1)
  note st = loopBody_step [OF halt(2)]
  from halt(2,4,5) have "j = indexVar l"
    by (simp add: st)
  with halt(2,6) loopBody_at [OF halt(2)] show ?case
    by (simp split: if_splits)
next
  case (turn l l1 e l')
  note st = loopBody_step [OF turn(2)]
  show ?case
  proof (cases "j = indexVar l")
    case True
    with turn(2) have "j < indexVar l1"
      by (simp add: st)
    with turn(3) have same: "sprites (coordinator l') ! j = sprites (coordinator l1) ! j"
      by (simp add: mainLoop_outside)
    from turn(3) have "covers (needsTextureSyncIndexRange (coordinator l1)) x \<Longrightarrow>
        covers (needsTextureSyncIndexRange (coordinator l')) x" for x
      using mainLoop_covers by blast
    with same True turn(7) loopBody_at [OF turn(2)] show ?thesis
      by (simp split: if_splits)
  next
    case False
    with turn(2,5) have "indexVar l1 \<le> j" and "sprites (coordinator l1) ! j = sprites (coordinator l) ! j"
      by (simp_all add: st)
    with turn(2,4,6,7) show ?thesis
      by (simp add: st cong: if_cong)
  qed
qed

lemma mainLoop_pending:
  assumes "mainLoop remaining stepsBetweenChecks currentTimeMs highIndex l = (e, l')"
    and "indexVar l \<le> j" and "j < indexVar l'" and "j < length (sprites (coordinator l))"
    and "eligible (sprites (coordinator l) ! j)"
    and "spriteView (sprites (coordinator l) ! j) = Some v"
    and "index (sprites (coordinator l) ! j) \<noteq> None"
    and "currentTimeMs < TransitionTimeMs v"
  shows "covers (toBeRemovedIndexRange (coordinator l')) j \<and>
         covers (toBeRemovedTsRange (coordinator l')) (TransitionTimeMs v)"
  using assms
proof (induction rule: mainLoop_rule)
  case (exit l)
  then show ?case by simp
next
  case (halt l k l1)
  note st = loopBody_step [OF halt(2)]
  from halt(2,4,5) have "j = indexVar l"
    by (simp add: st)
  with halt loopBody_pending [OF halt(2), of v] show ?case
    by simp
next
  case (turn l l1 e l')
  note st = loopBody_step [OF turn(2)]
  show ?case
  proof (cases "j = indexVar l")
    case True
    with turn loopBody_pending [OF turn(2), of v]
    have "covers (toBeRemovedIndexRange (coordinator l1)) j \<and>
          covers (toBeRemovedTsRange (coordinator l1)) (TransitionTimeMs v)"
      by simp
    with turn(3) show ?thesis
      using mainLoop_covers by blast
  next
    case False
    with turn(2,5) have "indexVar l1 \<le> j" and "sprites (coordinator l1) ! j = sprites (coordinator l) ! j"
      by (simp_all add: st)
    with turn show ?thesis
      by (simp add: st)
  qed
qed

lemma mainLoop_fault:
  assumes "mainLoop remaining stepsBetweenChecks currentTimeMs highIndex l = (e, l')"
    and "indexVar l \<le> j" and "j < indexVar l'" and "j < length (sprites (coordinator l))"
    and "eligible (sprites (coordinator l) ! j)"
    and "spriteView (sprites (coordinator l) ! j) = None \<or>
         index (sprites (coordinator l) ! j) = None"
  shows "e = Some (InternalError ''Sprite missing required properties'') \<and> indexVar l' = Suc j"
  using assms
proof (induction rule: mainLoop_rule)
  case (exit l)
  then show ?case by simp
next
  case (halt l k l1)
  note st = loopBody_step [OF halt(2)]
  from halt(2,4,5) have "j = indexVar l"
    by (simp add: st)
  with halt loopBody_fault [OF halt(2)] show ?case
    by (simp add: st)
next
  case (turn l l1 e l')
  note st = loopBody_step [OF turn(2)]
  show ?case
  proof (cases "j = indexVar l")
    case True
    with turn loopBody_fault [OF turn(2)] show ?thesis
      by simp
  next
    case False
    with turn(2,5) have "indexVar l1 \<le> j" and "sprites (coordinator l1) ! j = sprites (coordinator l) ! j"
      by (simp_all add: st)
    with turn show ?thesis
      by (simp add: st)
  qed
qed

lemma mainLoop_unlimited:
  assumes "mainLoop remaining stepsBetweenChecks currentTimeMs highIndex l = (e, l')"
    and "e = None" and "\<And>n. 0 < remaining n"
  shows "\<not> indexVar l' \<le> highIndex"
  using assms(1,2)
proof (induction rule: mainLoop_rule)
  case (exit l)
  then show ?case by simp
next
  case (halt l k l1)
  note st = loopBody_step [OF halt(2)]
  from halt(3,4) have "k = Break"
    by (cases k) simp_all
  with halt(2) loopBody_Break [of remaining stepsBetweenChecks currentTimeMs l l1]
  have "remaining (remainingCalls l) \<le> 0" by simp
  with assms(3) [of "remainingCalls l"] show ?case by simp
next
  case (turn l l1 e l')
  note st = loopBody_step [OF turn(2)]
  from turn show ?case by simp
qed

lemma loopBody_Throw_coordinator:
  assumes "loopBody remaining stepsBetweenChecks currentTimeMs l = (Throw x, l1)"
  shows "coordinator l1 = coordinator l"
  using assms by (cases rule: loopBody_cases) auto

lemma loopBody_Continue_length:
  assumes "loopBody remaining stepsBetweenChecks currentTimeMs l = (Continue, l1)"
  shows "indexVar l < length (sprites (coordinator l))"
  using assms by (cases rule: loopBody_cases) auto

lemma mainLoop_change:
  assumes "mainLoop remaining stepsBetweenChecks currentTimeMs highIndex l = (e, l')"
    and "j < length (sprites (coordinator l))"
  shows "sprites (coordinator l') ! j = sprites (coordinator l) ! j \<or>
         (indexVar l \<le> j \<and> j < indexVar l' \<and> due currentTimeMs (sprites (coordinator l) ! j) \<and>
          sprites (coordinator l') ! j = flashed (sprites (coordinator l) ! j))"
proof (cases "indexVar l \<le> j \<and> j < indexVar l'")
  case True
  with mainLoop_visit [OF assms(1) _ _ assms(2)] show ?thesis
    by (simp split: if_splits)
next
  case False
  with mainLoop_outside [OF assms(1), of j] show ?thesis
    by auto
qed

lemma mutated_eq: "mutated xs ys = {j. j < length xs \<and> ys ! j \<noteq> xs ! j}"
  by (auto simp: mutated_def)

lemma finite_mutated: "finite (mutated xs ys)"
  by (simp add: mutated_def)

lemma mainLoop_budget:
  assumes "mainLoop remaining stepsBetweenChecks currentTimeMs highIndex l = (e, l')"
    and "\<And>n. remaining n \<le> 0"
    and "0 < step l" and "step l \<le> stepsBetweenChecks"
  shows "card (mutated (sprites (coordinator l)) (sprites (coordinator l'))) \<le>
         Suc stepsBetweenChecks - step l"
  using assms(1,3,4)
proof (induction rule: mainLoop_rule)
  case (exit l)
  then show ?case by (simp add: mutated_eq)
next
  case (halt l k l1)
  note st = loopBody_step [OF halt(2)]
  have "mutated (sprites (coordinator l)) (sprites (coordinator l1)) \<subseteq> {indexVar l}"
    using st(10) by (auto simp: mutated_eq)
  then have "card (mutated (sprites (coordinator l)) (sprites (coordinator l1))) \<le> card {indexVar l}"
    by (intro card_mono) simp_all
  with halt(5) show ?case by simp
next
  case (turn l l1 e l')
  note st = loopBody_step [OF turn(2)]
  let ?i = "indexVar l"
  from turn(2) have len: "?i < length (sprites (coordinator l))"
    by (rule loopBody_Continue_length)
  note at = loopBody_at [OF turn(2) len]
  show ?case
  proof (cases "due currentTimeMs (sprites (coordinator l) ! ?i)")
    case True
    from loopBody_Continue_due [OF turn(2) len True] assms(2) [of "remainingCalls l"] turn(5,6)
    have "step l mod stepsBetweenChecks \<noteq> 0"
      by auto
    with turn(5,6) have lt: "step l < stepsBetweenChecks"
      by (cases "step l = stepsBetweenChecks") simp_all
    from True at have "step l1 = Suc (step l)"
      by simp
    with lt turn(4)
    have ih: "card (mutated (sprites (coordinator l1)) (sprites (coordinator l'))) \<le>
              stepsBetweenChecks - step l"
      by simp
    have "mutated (sprites (coordinator l)) (sprites (coordinator l')) \<subseteq>
          insert ?i (mutated (sprites (coordinator l1)) (sprites (coordinator l')))"
      using st(6,10) by (auto simp: mutated_eq)
    then have "card (mutated (sprites (coordinator l)) (sprites (coordinator l'))) \<le>
               card (insert ?i (mutated (sprites (coordinator l1)) (sprites (coordinator l'))))"
      by (intro card_mono) (simp_all add: finite_mutated)
    also have "\<dots> \<le> Suc (card (mutated (sprites (coordinator l1)) (sprites (coordinator l'))))"
      by (simp add: card_insert_if finite_mutated)
    finally show ?thesis
      using ih lt by simp
  next
    case False
    with at have same: "sprites (coordinator l1) ! ?i = sprites (coordinator l) ! ?i"
      and "step l1 = step l"
      by simp_all
    with turn(4,5,6)
    have ih: "card (mutated (sprites (coordinator l1)) (sprites (coordinator l'))) \<le>
              Suc stepsBetweenChecks - step l"
      by simp
    have "sprites (coordinator l1) ! j = sprites (coordinator l) ! j" for j
      using same st(10) [of j] by (cases "j = ?i") simp_all
    then have "mutated (sprites (coordinator l)) (sprites (coordinator l')) =
          mutated (sprites (coordinator l1)) (sprites (coordinator l'))"
      using st(6) by (simp add: mutated_eq)
    with ih show ?thesis by simp
  qed
qed

subsection \<open>The cleanup loop\<close>

lemma cleanupBody_cases [consumes 1, case_names oob skip fault readd]:
  assumes "cleanupBody l = (e, l1)"
  obtains
    "length (sprites (coordinator l)) \<le> iVar l" "e = Some TypeError"
      "l1 = l\<lparr>scanned := scanned l @ [iVar l]\<rparr>"
  | "iVar l < length (sprites (coordinator l))"
      "\<not> eligible (sprites (coordinator l) ! iVar l)" "e = None"
      "l1 = l\<lparr>scanned := scanned l @ [iVar l], iVar := Suc (iVar l)\<rparr>"
  | "iVar l < length (sprites (coordinator l))"
      "eligible (sprites (coordinator l) ! iVar l)"
      "spriteView (sprites (coordinator l) ! iVar l) = None"
      "e = Some (InternalError ''Sprite lacks a SpriteView'')"
      "l1 = l\<lparr>scanned := scanned l @ [iVar l]\<rparr>"
  | v where "iVar l < length (sprites (coordinator l))"
      "eligible (sprites (coordinator l) ! iVar l)"
      "spriteView (sprites (coordinator l) ! iVar l) = Some v" "e = None"
      "l1 = l\<lparr>scanned := scanned l @ [iVar l], iVar := Suc (iVar l),
         readded := readded l @ [iVar l],
         coordinator := (coordinator l)
           \<lparr>toBeRemovedIndexRange :=
              expandToInclude (iVar l) (toBeRemovedIndexRange (coordinator l)),
            toBeRemovedTsRange :=
              expandToInclude (TransitionTimeMs v) (toBeRemovedTsRange (coordinator l))\<rparr>\<rparr>"
  using assms unfolding cleanupBody_def Let_def eligible_def
  by (auto split: if_splits option.splits)

lemma cleanupBody_step:
  assumes "cleanupBody l = (e, l1)"
  shows "scanned l1 = scanned l @ [iVar l]"
    and "iVar l1 = (if e = None then Suc (iVar l) else iVar l)"
    and "readded l1 =
         (if e = None \<and> eligible (sprites (coordinator l) ! iVar l)
          then readded l @ [iVar l] else readded l)"
    and "sprites (coordinator l1) = sprites (coordinator l)"
    and "elapsedTimeMs (coordinator l1) = elapsedTimeMs (coordinator l)"
    and "queueRemovalTask (coordinator l1) = queueRemovalTask (coordinator l)"
    and "queueTextureSync (coordinator l1) = queueTextureSync (coordinator l)"
    and "needsTextureSyncIndexRange (coordinator l1) = needsTextureSyncIndexRange (coordinator l)"
    and "visited l1 = visited l" and "indexVar l1 = indexVar l"
    and "covers (toBeRemovedIndexRange (coordinator l)) x \<Longrightarrow>
         covers (toBeRemovedIndexRange (coordinator l1)) x"
    and "covers (toBeRemovedTsRange (coordinator l)) t \<Longrightarrow>
         covers (toBeRemovedTsRange (coordinator l1)) t"
    and "isDefined (toBeRemovedIndexRange (coordinator l)) =
           isDefined (toBeRemovedTsRange (coordinator l)) \<Longrightarrow>
         isDefined (toBeRemovedIndexRange (coordinator l1)) =
           isDefined (toBeRemovedTsRange (coordinator l1))"
    and "e = None \<Longrightarrow> iVar l < length (sprites (coordinator l))"
  using assms
  by (cases rule: cleanupBody_cases; simp add: covers_expand isDefined_expand)+

lemma cleanupBody_readd:
  assumes "cleanupBody l = (None, l1)"
    and "eligible (sprites (coordinator l) ! iVar l)"
  shows "\<exists>v. spriteView (sprites (coordinator l) ! iVar l) = Some v \<and>
             covers (toBeRemovedIndexRange (coordinator l1)) (iVar l) \<and>
             covers (toBeRemovedTsRange (coordinator l1)) (TransitionTimeMs v)"
  using assms by (cases rule: cleanupBody_cases) (auto simp: covers_expand_self)

lemma cleanupBody_thrown:
  assumes "cleanupBody l = (Some x, l1)"
  shows "if iVar l < length (sprites (coordinator l))
         then eligible (sprites (coordinator l) ! iVar l) \<and>
              spriteView (sprites (coordinator l) ! iVar l) = None \<and>
              x = InternalError ''Sprite lacks a SpriteView''
         else x = TypeError"
  using assms by (cases rule: cleanupBody_cases) auto

declare cleanupLoop.simps [simp del]

lemma cleanupLoop_rule [consumes 1, case_names exit halt turn]:
  assumes run: "cleanupLoop highIndex l = (e, l')"
    and exit: "\<And>l. \<not> iVar l \<le> highIndex \<Longrightarrow> P l None l"
    and halt: "\<And>l x l1. iVar l \<le> highIndex \<Longrightarrow> cleanupBody l = (Some x, l1) \<Longrightarrow> P l (Some x) l1"
    and turn: "\<And>l l1 e l'. iVar l \<le> highIndex \<Longrightarrow> cleanupBody l = (None, l1) \<Longrightarrow>
        cleanupLoop highIndex l1 = (e, l') \<Longrightarrow> P l1 e l' \<Longrightarrow> P l e l'"
  shows "P l e l'"
  using run
proof (induction "Suc highIndex - iVar l" arbitrary: l e l' rule: less_induct)
  case less
  show ?case
  proof (cases "iVar l \<le> highIndex")
    case False
    with less.prems have "e = None" and "l' = l"
      by (simp_all add: cleanupLoop.simps)
    with exit [OF False] show ?thesis by simp
  next
    case True
    obtain k l1 where body: "cleanupBody l = (k, l1)"
      by (cases "cleanupBody l")
    show ?thesis
    proof (cases k)
      case None
      with True body less.prems have rest: "cleanupLoop highIndex l1 = (e, l')"
        by (simp add: cleanupLoop.simps [of _ l])
      from body None have "iVar l1 = Suc (iVar l)"
        by (simp add: cleanupBody_step)
      with True have "Suc highIndex - iVar l1 < Suc highIndex - iVar l"
        by simp
      from less.hyps [OF this rest] have "P l1 e l'" .
      with True body None rest turn show ?thesis by blast
    next
      case (Some x)
      with True body less.prems halt [OF True, of x l1] show ?thesis
        by (simp add: cleanupLoop.simps [of _ l])
    qed
  qed
qed

lemma cleanupLoop_fields:
  assumes "cleanupLoop highIndex l = (e, l')"
  shows "sprites (coordinator l') = sprites (coordinator l) \<and>
         elapsedTimeMs (coordinator l') = elapsedTimeMs (coordinator l) \<and>
         queueRemovalTask (coordinator l') = queueRemovalTask (coordinator l) \<and>
         queueTextureSync (coordinator l') = queueTextureSync (coordinator l) \<and>
         needsTextureSyncIndexRange (coordinator l') = needsTextureSyncIndexRange (coordinator l) \<and>
         visited l' = visited l \<and> indexVar l' = indexVar l"
  using assms
proof (induction rule: cleanupLoop_rule)
  case (exit l)
  show ?case by simp
next
  case (halt l x l1)
  note st = cleanupBody_step [OF halt(2)]
  from halt show ?case by (simp add: st)
next
  case (turn l l1 e l')
  note st = cleanupBody_step [OF turn(2)]
  from turn show ?case by (simp add: st)
qed

lemma cleanupLoop_covers:
  assumes "cleanupLoop highIndex l = (e, l')"
  shows "(covers (toBeRemovedIndexRange (coordinator l)) x \<longrightarrow>
          covers (toBeRemovedIndexRange (coordinator l')) x) \<and>
         (covers (toBeRemovedTsRange (coordinator l)) t \<longrightarrow>
          covers (toBeRemovedTsRange (coordinator l')) t)"
  using assms
proof (induction rule: cleanupLoop_rule)
  case (exit l)
  show ?case by simp
next
  case (halt l x l1)
  note st = cleanupBody_step [OF halt(2)]
  from halt show ?case by (simp add: st)
next
  case (turn l l1 e l')
  note st = cleanupBody_step [OF turn(2)]
  from turn show ?case by (simp add: st)
qed

lemma cleanupLoop_together:
  assumes "cleanupLoop highIndex l = (e, l')"
    and "isDefined (toBeRemovedIndexRange (coordinator l)) =
         isDefined (toBeRemovedTsRange (coordinator l))"
  shows "isDefined (toBeRemovedIndexRange (coordinator l')) =
         isDefined (toBeRemovedTsRange (coordinator l'))"
  using assms
proof (induction rule: cleanupLoop_rule)
  case (exit l)
  then show ?case by simp
next
  case (halt l x l1)
  note st = cleanupBody_step [OF halt(2)]
  from halt show ?case by (simp add: st)
next
  case (turn l l1 e l')
  note st = cleanupBody_step [OF turn(2)]
  from turn show ?case by (simp add: st)
qed

lemma cleanupLoop_iVar:
  assumes "cleanupLoop highIndex l = (e, l')"
  shows "iVar l \<le> iVar l' \<and> (iVar l \<le> Suc highIndex \<longrightarrow> iVar l' \<le> Suc highIndex) \<and>
         (if e = None then \<not> iVar l' \<le> highIndex else iVar l' \<le> highIndex) \<and>
         scanned l' = scanned l @ [iVar l ..< (if e = None then iVar l' else Suc (iVar l'))] \<and>
         readded l' =
           readded l @ filter (\<lambda>j. eligible (sprites (coordinator l) ! j)) [iVar l ..< iVar l']"
  using assms
proof (induction rule: cleanupLoop_rule)
  case (exit l)
  then show ?case by simp
next
  case (halt l x l1)
  note st = cleanupBody_step [OF halt(2)]
  from halt show ?case by (simp add: st)
next
  case (turn l l1 e l')
  note st = cleanupBody_step [OF turn(2)]
  from turn(4) have "Suc (iVar l) \<le> iVar l'"
    by (simp add: st)
  with turn show ?case
    by (simp add: st upt_conv_Cons)
qed

lemma cleanupLoop_passed:
  assumes "cleanupLoop highIndex l = (e, l')"
    and "iVar l \<le> j" and "j < iVar l'"
  shows "j < length (sprites (coordinator l)) \<and>
         (eligible (sprites (coordinator l) ! j) \<longrightarrow>
          (\<exists>v. spriteView (sprites (coordinator l) ! j) = Some v \<and>
               covers (toBeRemovedIndexRange (coordinator l')) j \<and>
               covers (toBeRemovedTsRange (coordinator l')) (TransitionTimeMs v)))"
  using assms
proof (induction rule: cleanupLoop_rule)
  case (exit l)
  then show ?case by simp
next
  case (halt l x l1)
  note st = cleanupBody_step [OF halt(2)]
  from halt show ?case by (simp add: st)
next
  case (turn l l1 e l')
  note st = cleanupBody_step [OF turn(2)]
  show ?case
  proof (cases "j = iVar l")
    case True
    from cleanupLoop_covers [OF turn(3)] cleanupBody_readd [OF turn(2)] True st(14)
    show ?thesis by auto
  next
    case False
    with turn show ?thesis by (simp add: st)
  qed
qed

lemma cleanupLoop_thrown:
  assumes "cleanupLoop highIndex l = (e, l')" and "e = Some x"
  shows "if iVar l' < length (sprites (coordinator l))
         then eligible (sprites (coordinator l) ! iVar l') \<and>
              spriteView (sprites (coordinator l) ! iVar l') = None \<and>
              x = InternalError ''Sprite lacks a SpriteView''
         else x = TypeError"
  using assms
proof (induction rule: cleanupLoop_rule)
  case (exit l)
  then show ?case by simp
next
  case (halt l y l1)
  from halt(3) have "y = x"
    by simp
  moreover from cleanupBody_step(2) [OF halt(2)] have "iVar l1 = iVar l"
    by simp
  ultimately show ?case
    using cleanupBody_thrown [OF halt(2)] by (auto split: if_splits)
next
  case (turn l l1 e l')
  from cleanupBody_step(4) [OF turn(2)]
  have "sprites (coordinator l1) = sprites (coordinator l)" .
  with turn(4) [OF turn(5)] show ?case
    by (simp cong: if_cong)
qed

subsection \<open>The task as a whole\<close>

lemma runRemoval_undefined:
  assumes "\<not> isDefined (toBeRemovedIndexRange c) \<or> \<not> isDefined (toBeRemovedTsRange c)"
  shows "runRemoval c remaining stepsBetweenChecks =
         \<lparr>thrown = Some (InternalError ''No sprites are queued for removal''),
          final = c, thrownInTry = None, thrownInFinally = None, locals = None\<rparr>"
  using assms by (auto simp: runRemoval_def)

lemma runRemoval_early:
  assumes "isDefined (toBeRemovedIndexRange c)" and "isDefined (toBeRemovedTsRange c)"
    and "elapsedTimeMs c < lowBound (toBeRemovedTsRange c)"
  shows "runRemoval c remaining stepsBetweenChecks =
         \<lparr>thrown = None, final = c\<lparr>queueRemovalTask := queueRemovalTask c + 1\<rparr>,
          thrownInTry = None, thrownInFinally = None, locals = None\<rparr>"
  using assms by (simp add: runRemoval_def)

lemma runRemoval_main:
  assumes "isDefined (toBeRemovedIndexRange c)" and "isDefined (toBeRemovedTsRange c)"
    and "\<not> elapsedTimeMs c < lowBound (toBeRemovedTsRange c)"
  obtains e1 l1 e2 l2 l where
    "mainLoop remaining stepsBetweenChecks (elapsedTimeMs c) (highBound (toBeRemovedIndexRange c))
       \<lparr>coordinator = c\<lparr>toBeRemovedIndexRange := None, toBeRemovedTsRange := None\<rparr>,
        indexVar = lowBound (toBeRemovedIndexRange c), step = 1, remainingCalls = 0,
        iVar = lowBound (toBeRemovedIndexRange c), visited = [], scanned = [], readded = []\<rparr>
     = (e1, l1)"
    "cleanupLoop (highBound (toBeRemovedIndexRange c)) (l1\<lparr>iVar := indexVar l1\<rparr>) = (e2, l2)"
    "thrown (runRemoval c remaining stepsBetweenChecks) =
       (case e2 of Some e \<Rightarrow> Some e | None \<Rightarrow> e1)"
    "thrownInTry (runRemoval c remaining stepsBetweenChecks) = e1"
    "thrownInFinally (runRemoval c remaining stepsBetweenChecks) = e2"
    "locals (runRemoval c remaining stepsBetweenChecks) = Some l"
    "l = l2\<lparr>coordinator := final (runRemoval c remaining stepsBetweenChecks)\<rparr>"
    "final (runRemoval c remaining stepsBetweenChecks) =
       (coordinator l2)
         \<lparr>queueTextureSync := queueTextureSync (coordinator l2) +
            (if e2 = None \<and> isDefined (needsTextureSyncIndexRange (coordinator l2)) then 1 else 0),
          queueRemovalTask := queueRemovalTask (coordinator l2) +
            (if e2 = None \<and> isDefined (toBeRemovedIndexRange (coordinator l2)) then 1 else 0)\<rparr>"
proof -
  let ?hi = "highBound (toBeRemovedIndexRange c)"
  let ?l0 = "\<lparr>coordinator = c\<lparr>toBeRemovedIndexRange := None, toBeRemovedTsRange := None\<rparr>,
        indexVar = lowBound (toBeRemovedIndexRange c), step = 1, remainingCalls = 0,
        iVar = lowBound (toBeRemovedIndexRange c), visited = [], scanned = [], readded = []\<rparr>"
  obtain e1 l1 where m: "mainLoop remaining stepsBetweenChecks (elapsedTimeMs c) ?hi ?l0 = (e1, l1)"
    by (cases "mainLoop remaining stepsBetweenChecks (elapsedTimeMs c) ?hi ?l0")
  obtain e2 l2 where f: "cleanupLoop ?hi (l1\<lparr>iVar := indexVar l1\<rparr>) = (e2, l2)"
    by (cases "cleanupLoop ?hi (l1\<lparr>iVar := indexVar l1\<rparr>)")
  show ?thesis
  proof (cases e2)
    case None
    with assms m f that [OF m f, of "l2\<lparr>coordinator := final (runRemoval c remaining stepsBetweenChecks)\<rparr>"]
    show ?thesis
      by (simp add: runRemoval_def finallyBlock_def clear_def Let_def)
  next
    case (Some x)
    with assms m f that [OF m f, of "l2\<lparr>coordinator := final (runRemoval c remaining stepsBetweenChecks)\<rparr>"]
    show ?thesis
      by (simp add: runRemoval_def finallyBlock_def clear_def Let_def)
  qed
qed

lemma mainLoop_indexVar_max:
  assumes "mainLoop remaining stepsBetweenChecks currentTimeMs highIndex l = (e, l')"
  shows "indexVar l' \<le> max (indexVar l) (Suc highIndex)"
  using assms
proof (induction rule: mainLoop_rule)
  case (exit l)
  show ?case by simp
next
  case (halt l k l1)
  note st = loopBody_step [OF halt(2)]
  from halt show ?case by (simp add: st)
next
  case (turn l l1 e l')
  note st = loopBody_step [OF turn(2)]
  from turn show ?case by (simp add: st)
qed

lemma covers_bounds:
  "isDefined r \<Longrightarrow> covers r x = (lowBound r \<le> x \<and> x \<le> highBound r)"
  by (cases r) (auto simp: covers_def isDefined_def lowBound_def highBound_def)

lemma due_eligible: "due t p \<Longrightarrow> eligible p"
  by (simp add: due_def)

lemma runRemoval_sprites:
  "length (sprites (final (runRemoval c remaining stepsBetweenChecks))) = length (sprites c) \<and>
   (j < length (sprites c) \<longrightarrow>
    sprites (final (runRemoval c remaining stepsBetweenChecks)) ! j = sprites c ! j \<or>
    covers (toBeRemovedIndexRange c) j \<and> due (elapsedTimeMs c) (sprites c ! j) \<and>
    sprites (final (runRemoval c remaining stepsBetweenChecks)) ! j = flashed (sprites c ! j))"
proof (cases "\<not> isDefined (toBeRemovedIndexRange c) \<or> \<not> isDefined (toBeRemovedTsRange c)")
  case True
  note r = runRemoval_undefined [OF True, of remaining stepsBetweenChecks]
  show ?thesis
    by (simp add: r)
next
  case defined: False
  show ?thesis
  proof (cases "elapsedTimeMs c < lowBound (toBeRemovedTsRange c)")
    case True
    with defined show ?thesis
      by (simp add: runRemoval_early)
  next
    case False
    let ?hi = "highBound (toBeRemovedIndexRange c)"
    let ?l0 = "\<lparr>coordinator = c\<lparr>toBeRemovedIndexRange := None, toBeRemovedTsRange := None\<rparr>,
          indexVar = lowBound (toBeRemovedIndexRange c), step = 1, remainingCalls = 0,
          iVar = lowBound (toBeRemovedIndexRange c), visited = [], scanned = [], readded = []\<rparr>"
    from False defined obtain e1 l1 e2 l2 l where
      main: "mainLoop remaining stepsBetweenChecks (elapsedTimeMs c) ?hi ?l0 = (e1, l1)"
      and cleanup: "cleanupLoop ?hi (l1\<lparr>iVar := indexVar l1\<rparr>) = (e2, l2)"
      and final: "final (runRemoval c remaining stepsBetweenChecks) =
         (coordinator l2)
           \<lparr>queueTextureSync := queueTextureSync (coordinator l2) +
              (if e2 = None \<and> isDefined (needsTextureSyncIndexRange (coordinator l2)) then 1 else 0),
            queueRemovalTask := queueRemovalTask (coordinator l2) +
              (if e2 = None \<and> isDefined (toBeRemovedIndexRange (coordinator l2)) then 1 else 0)\<rparr>"
      by (auto elim: runRemoval_main [of c remaining stepsBetweenChecks])
    from cleanupLoop_fields [OF cleanup] final
    have same: "sprites (final (runRemoval c remaining stepsBetweenChecks)) = sprites (coordinator l1)"
      by simp
    from mainLoop_fields [OF main] have len: "length (sprites (coordinator l1)) = length (sprites c)"
      by simp
    have "sprites (coordinator l1) ! j = sprites c ! j \<or>
          covers (toBeRemovedIndexRange c) j \<and> due (elapsedTimeMs c) (sprites c ! j) \<and>
          sprites (coordinator l1) ! j = flashed (sprites c ! j)" if j: "j < length (sprites c)"
    proof -
      from mainLoop_change [OF main, of j] j
      consider "sprites (coordinator l1) ! j = sprites c ! j"
        | "lowBound (toBeRemovedIndexRange c) \<le> j" "j < indexVar l1"
          "due (elapsedTimeMs c) (sprites c ! j)"
          "sprites (coordinator l1) ! j = flashed (sprites c ! j)"
        by auto
      then show ?thesis
      proof cases
        case 1
        then show ?thesis by simp
      next
        case 2
        from mainLoop_indexVar_max [OF main] 2(1,2) have "j \<le> ?hi"
          by simp
        with 2 defined show ?thesis
          by (simp add: covers_bounds)
      qed
    qed
    with same len show ?thesis by simp
  qed
qed

lemma cleanupLoop_iVar_max:
  assumes "cleanupLoop highIndex l = (e, l')"
  shows "iVar l' \<le> max (iVar l) (Suc highIndex)"
  using assms
proof (induction rule: cleanupLoop_rule)
  case (exit l)
  show ?case by simp
next
  case (halt l x l1)
  note st = cleanupBody_step [OF halt(2)]
  from halt show ?case by (simp add: st)
next
  case (turn l l1 e l')
  note st = cleanupBody_step [OF turn(2)]
  from turn show ?case by (simp add: st)
qed

text \<open>The history of a run that reaches the \<^verbatim>\<open>try\<close> statement: the main loop visits the
  positions from the low bound up to where \<^verbatim>\<open>index\<close> stops, the cleanup scans on from
  there.\<close>

lemma runRemoval_history:
  assumes "locals (runRemoval c remaining stepsBetweenChecks) = Some l"
  shows "isDefined (toBeRemovedIndexRange c)"
    and "isDefined (toBeRemovedTsRange c)"
    and "\<not> elapsedTimeMs c < lowBound (toBeRemovedTsRange c)"
    and "visited l = [lowBound (toBeRemovedIndexRange c) ..< indexVar l]"
    and "scanned l =
         [indexVar l ..< (if thrownInFinally (runRemoval c remaining stepsBetweenChecks) = None
                          then iVar l else Suc (iVar l))]"
    and "readded l = filter (\<lambda>j. eligible (sprites c ! j)) [indexVar l ..< iVar l]"
    and "lowBound (toBeRemovedIndexRange c) \<le> indexVar l"
    and "indexVar l \<le> max (lowBound (toBeRemovedIndexRange c))
                          (Suc (highBound (toBeRemovedIndexRange c)))"
    and "indexVar l \<le> iVar l"
    and "iVar l \<le> max (indexVar l) (Suc (highBound (toBeRemovedIndexRange c)))"
    and "if thrownInFinally (runRemoval c remaining stepsBetweenChecks) = None
         then \<not> iVar l \<le> highBound (toBeRemovedIndexRange c)
         else iVar l \<le> highBound (toBeRemovedIndexRange c)"
proof -
  from assms show d1: "isDefined (toBeRemovedIndexRange c)"
    and d2: "isDefined (toBeRemovedTsRange c)"
    by (auto simp: runRemoval_def split: if_splits)
  from assms d1 d2 show d3: "\<not> elapsedTimeMs c < lowBound (toBeRemovedTsRange c)"
    by (auto simp: runRemoval_early)
  let ?hi = "highBound (toBeRemovedIndexRange c)"
  let ?l0 = "\<lparr>coordinator = c\<lparr>toBeRemovedIndexRange := None, toBeRemovedTsRange := None\<rparr>,
        indexVar = lowBound (toBeRemovedIndexRange c), step = 1, remainingCalls = 0,
        iVar = lowBound (toBeRemovedIndexRange c), visited = [], scanned = [], readded = []\<rparr>"
  from d1 d2 d3 assms obtain e1 l1 l2 where
    main: "mainLoop remaining stepsBetweenChecks (elapsedTimeMs c) ?hi ?l0 = (e1, l1)"
    and cleanup: "cleanupLoop ?hi (l1\<lparr>iVar := indexVar l1\<rparr>) =
       (thrownInFinally (runRemoval c remaining stepsBetweenChecks), l2)"
    and l: "l = l2\<lparr>coordinator := final (runRemoval c remaining stepsBetweenChecks)\<rparr>"
    by (auto elim: runRemoval_main [of c remaining stepsBetweenChecks])
  note m = mainLoop_indexVar [OF main] mainLoop_indexVar_max [OF main] mainLoop_fields [OF main]
  note f = cleanupLoop_iVar [OF cleanup] cleanupLoop_iVar_max [OF cleanup]
    cleanupLoop_fields [OF cleanup]
  from f l have ix: "indexVar l = indexVar l1"
    by simp
  from m f l show "visited l = [lowBound (toBeRemovedIndexRange c) ..< indexVar l]"
    by simp
  from m f l show "scanned l =
         [indexVar l ..< (if thrownInFinally (runRemoval c remaining stepsBetweenChecks) = None
                          then iVar l else Suc (iVar l))]"
    by simp
  have "eligible (sprites (coordinator l1) ! j) = eligible (sprites c ! j)"
    if "j \<in> set [indexVar l1 ..< iVar l2]" for j
    using that mainLoop_outside [OF main, of j] by simp
  then have "filter (\<lambda>j. eligible (sprites (coordinator l1) ! j)) [indexVar l1 ..< iVar l2] =
        filter (\<lambda>j. eligible (sprites c ! j)) [indexVar l1 ..< iVar l2]"
    by (intro filter_cong refl)
  with m f l show "readded l = filter (\<lambda>j. eligible (sprites c ! j)) [indexVar l ..< iVar l]"
    by simp
  from m ix show "lowBound (toBeRemovedIndexRange c) \<le> indexVar l"
    by simp
  from m ix show "indexVar l \<le> max (lowBound (toBeRemovedIndexRange c)) (Suc ?hi)"
    by simp
  from f l show "indexVar l \<le> iVar l"
    by simp
  from f l show "iVar l \<le> max (indexVar l) (Suc ?hi)"
    by simp
  from f l show "if thrownInFinally (runRemoval c remaining stepsBetweenChecks) = None
         then \<not> iVar l \<le> ?hi else iVar l \<le> ?hi"
    by simp
qed

lemma runRemoval_passed:
  assumes "locals (runRemoval c remaining stepsBetweenChecks) = Some l"
    and "indexVar l \<le> j" and "j < iVar l"
  shows "j < length (sprites c)"
    and "eligible (sprites c ! j) \<Longrightarrow>
         spriteView (sprites c ! j) \<noteq> None \<and>
         covers (toBeRemovedIndexRange (final (runRemoval c remaining stepsBetweenChecks))) j \<and>
         covers (toBeRemovedTsRange (final (runRemoval c remaining stepsBetweenChecks)))
           (TransitionTimeMs (the (spriteView (sprites c ! j))))"
proof -
  let ?r = "runRemoval c remaining stepsBetweenChecks"
  let ?hi = "highBound (toBeRemovedIndexRange c)"
  let ?l0 = "\<lparr>coordinator = c\<lparr>toBeRemovedIndexRange := None, toBeRemovedTsRange := None\<rparr>,
        indexVar = lowBound (toBeRemovedIndexRange c), step = 1, remainingCalls = 0,
        iVar = lowBound (toBeRemovedIndexRange c), visited = [], scanned = [], readded = []\<rparr>"
  note h = runRemoval_history [OF assms(1)]
  from h(1,2,3) assms(1) obtain e1 l1 e2 l2 where
    main: "mainLoop remaining stepsBetweenChecks (elapsedTimeMs c) ?hi ?l0 = (e1, l1)"
    and cleanup: "cleanupLoop ?hi (l1\<lparr>iVar := indexVar l1\<rparr>) = (e2, l2)"
    and l: "l = l2\<lparr>coordinator := final ?r\<rparr>"
    and final: "final ?r =
       (coordinator l2)
         \<lparr>queueTextureSync := queueTextureSync (coordinator l2) +
            (if e2 = None \<and> isDefined (needsTextureSyncIndexRange (coordinator l2)) then 1 else 0),
          queueRemovalTask := queueRemovalTask (coordinator l2) +
            (if e2 = None \<and> isDefined (toBeRemovedIndexRange (coordinator l2)) then 1 else 0)\<rparr>"
    by (auto elim: runRemoval_main [of c remaining stepsBetweenChecks])
  from l cleanupLoop_fields [OF cleanup] have ix: "indexVar l = indexVar l1" and iv: "iVar l = iVar l2"
    by simp_all
  from assms(2) ix have same: "sprites (coordinator l1) ! j = sprites c ! j"
    using mainLoop_outside [OF main, of j] by simp
  note p = cleanupLoop_passed [OF cleanup, of j]
  from p assms(2,3) ix iv mainLoop_fields [OF main] show "j < length (sprites c)"
    by simp
  assume "eligible (sprites c ! j)"
  with p assms(2,3) ix iv same final
  show "spriteView (sprites c ! j) \<noteq> None \<and>
         covers (toBeRemovedIndexRange (final ?r)) j \<and>
         covers (toBeRemovedTsRange (final ?r)) (TransitionTimeMs (the (spriteView (sprites c ! j))))"
    by auto
qed

lemma runRemoval_budget:
  assumes "\<And>n. remaining n \<le> 0" and "0 < stepsBetweenChecks"
  shows "card (mutated (sprites c) (sprites (final (runRemoval c remaining stepsBetweenChecks))))
         \<le> stepsBetweenChecks"
proof (cases "\<not> isDefined (toBeRemovedIndexRange c) \<or> \<not> isDefined (toBeRemovedTsRange c)")
  case True
  note r = runRemoval_undefined [OF True, of remaining stepsBetweenChecks]
  show ?thesis
    by (simp add: r mutated_eq)
next
  case defined: False
  show ?thesis
  proof (cases "elapsedTimeMs c < lowBound (toBeRemovedTsRange c)")
    case True
    with defined show ?thesis
      by (simp add: runRemoval_early mutated_eq)
  next
    case False
    let ?hi = "highBound (toBeRemovedIndexRange c)"
    let ?l0 = "\<lparr>coordinator = c\<lparr>toBeRemovedIndexRange := None, toBeRemovedTsRange := None\<rparr>,
          indexVar = lowBound (toBeRemovedIndexRange c), step = 1, remainingCalls = 0,
          iVar = lowBound (toBeRemovedIndexRange c), visited = [], scanned = [], readded = []\<rparr>"
    from False defined obtain e1 l1 e2 l2 l where
      main: "mainLoop remaining stepsBetweenChecks (elapsedTimeMs c) ?hi ?l0 = (e1, l1)"
      and cleanup: "cleanupLoop ?hi (l1\<lparr>iVar := indexVar l1\<rparr>) = (e2, l2)"
      and final: "final (runRemoval c remaining stepsBetweenChecks) =
         (coordinator l2)
           \<lparr>queueTextureSync := queueTextureSync (coordinator l2) +
              (if e2 = None \<and> isDefined (needsTextureSyncIndexRange (coordinator l2)) then 1 else 0),
            queueRemovalTask := queueRemovalTask (coordinator l2) +
              (if e2 = None \<and> isDefined (toBeRemovedIndexRange (coordinator l2)) then 1 else 0)\<rparr>"
      by (auto elim: runRemoval_main [of c remaining stepsBetweenChecks])
    from cleanupLoop_fields [OF cleanup] final
    have same: "sprites (final (runRemoval c remaining stepsBetweenChecks)) = sprites (coordinator l1)"
      by simp
    from mainLoop_budget [OF main assms(1)] assms(2) same show ?thesis
      by simp
  qed
qed

lemma due_flashed_differs: "due t p \<Longrightarrow> flashed p \<noteq> p"
proof
  assume "due t p" and "flashed p = p"
  then have "lifecyclePhase (flashed p) = Rest"
    by (simp add: due_def eligible_def)
  then show False
    by (simp add: flashed_def)
qed

lemma mainLoop_needsTextureSync:
  assumes "mainLoop remaining stepsBetweenChecks currentTimeMs highIndex l = (e, l')"
  shows "isDefined (needsTextureSyncIndexRange (coordinator l')) =
         (isDefined (needsTextureSyncIndexRange (coordinator l)) \<or>
          mutated (sprites (coordinator l)) (sprites (coordinator l')) \<noteq> {})"
  using assms
proof (induction rule: mainLoop_rule)
  case (exit l)
  show ?case by (simp add: mutated_eq)
next
  case (halt l k l1)
  note st = loopBody_step [OF halt(2)]
  show ?case
  proof (cases "indexVar l < length (sprites (coordinator l))")
    case False
    with halt(2) have "k = Throw TypeError"
      by (cases rule: loopBody_cases) simp_all
    with halt(2) have "coordinator l1 = coordinator l"
      by (simp add: loopBody_Throw_coordinator)
    then show ?thesis by (simp add: mutated_eq)
  next
    case True
    note at = loopBody_at [OF halt(2) True]
    show ?thesis
    proof (cases "due currentTimeMs (sprites (coordinator l) ! indexVar l)")
      case due: True
      with at due_flashed_differs [OF due] True
      have "indexVar l \<in> mutated (sprites (coordinator l)) (sprites (coordinator l1))"
        and "isDefined (needsTextureSyncIndexRange (coordinator l1))"
        by (auto simp: mutated_eq intro: covers_isDefined)
      then show ?thesis by auto
    next
      case False
      with at have "sprites (coordinator l1) ! j = sprites (coordinator l) ! j" for j
        using st(10) [of j] by (cases "j = indexVar l") simp_all
      with False at show ?thesis by (simp add: mutated_eq)
    qed
  qed
next
  case (turn l l1 e l')
  note st = loopBody_step [OF turn(2)]
  let ?i = "indexVar l"
  from turn(2) have len: "?i < length (sprites (coordinator l))"
    by (rule loopBody_Continue_length)
  note at = loopBody_at [OF turn(2) len]
  have later: "sprites (coordinator l') ! ?i = sprites (coordinator l1) ! ?i"
    using mainLoop_outside [OF turn(3), of ?i] st(1) by simp
  show ?case
  proof (cases "due currentTimeMs (sprites (coordinator l) ! ?i)")
    case due: True
    with at due_flashed_differs [OF due] later len
    have "?i \<in> mutated (sprites (coordinator l)) (sprites (coordinator l'))"
      and "isDefined (needsTextureSyncIndexRange (coordinator l1))"
      by (auto simp: mutated_eq intro: covers_isDefined)
    with turn(4) show ?thesis by auto
  next
    case False
    with at have "sprites (coordinator l1) ! j = sprites (coordinator l) ! j" for j
      using st(10) [of j] by (cases "j = ?i") simp_all
    then have "mutated (sprites (coordinator l)) (sprites (coordinator l')) =
          mutated (sprites (coordinator l1)) (sprites (coordinator l'))"
      using st(6) by (simp add: mutated_eq)
    with False at turn(4) show ?thesis by simp
  qed
qed

section \<open>The claims\<close>

text \<open>
  C1, made precise. Take a sprite whose position the to-be-removed index range covers, that
  is marked \<^verbatim>\<open>toBeRemoved\<close>, is in the phase \<^verbatim>\<open>Rest\<close> and has a view whose
  \<^verbatim>\<open>TransitionTimeMs\<close> is at or below the current elapsed time. When the current time has
  reached the low bound of the to-be-removed timestamp range (as it has when that range
  covers the sprite's transition time), one invocation of \<^verbatim>\<open>runRemoval\<close> with
  \<^verbatim>\<open>remaining()\<close> always positive that returns without an exception leaves the sprite's
  data view filled with zeros at its length, its zeroed flag set, its phase
  \<^verbatim>\<open>NeedsTextureSync\<close>, and its index property inside the needs-texture-sync index range.
\<close>

theorem runRemoval_flashes_due:
  assumes "covers (toBeRemovedIndexRange c) j"
    and "j < length (sprites c)"
    and "toBeRemoved (sprites c ! j)"
    and "lifecyclePhase (sprites c ! j) = Rest"
    and "spriteView (sprites c ! j) = Some v"
    and "TransitionTimeMs v \<le> elapsedTimeMs c"
    and "lowBound (toBeRemovedTsRange c) \<le> elapsedTimeMs c"
    and "\<And>n. 0 < remaining n"
    and "thrown (runRemoval c remaining stepsBetweenChecks) = None"
  shows "map_option DataView
           (spriteView (sprites (final (runRemoval c remaining stepsBetweenChecks)) ! j)) =
           Some (replicate (length (DataView v)) 0) \<and>
         zeroed (sprites (final (runRemoval c remaining stepsBetweenChecks)) ! j) \<and>
         lifecyclePhase (sprites (final (runRemoval c remaining stepsBetweenChecks)) ! j) =
           NeedsTextureSync \<and>
         index (sprites (final (runRemoval c remaining stepsBetweenChecks)) ! j) =
           index (sprites c ! j) \<and>
         index (sprites c ! j) \<noteq> None \<and>
         covers (needsTextureSyncIndexRange (final (runRemoval c remaining stepsBetweenChecks)))
           (the (index (sprites c ! j)))"
proof -
  let ?r = "runRemoval c remaining stepsBetweenChecks"
  let ?hi = "highBound (toBeRemovedIndexRange c)"
  let ?l0 = "\<lparr>coordinator = c\<lparr>toBeRemovedIndexRange := None, toBeRemovedTsRange := None\<rparr>,
        indexVar = lowBound (toBeRemovedIndexRange c), step = 1, remainingCalls = 0,
        iVar = lowBound (toBeRemovedIndexRange c), visited = [], scanned = [], readded = []\<rparr>"
  from assms(1) have d1: "isDefined (toBeRemovedIndexRange c)"
    by (rule covers_isDefined)
  have d2: "isDefined (toBeRemovedTsRange c)"
  proof (rule ccontr)
    assume "\<not> isDefined (toBeRemovedTsRange c)"
    then have "thrown ?r \<noteq> None"
      by (simp add: runRemoval_undefined)
    with assms(9) show False by simp
  qed
  from assms(7) have d3: "\<not> elapsedTimeMs c < lowBound (toBeRemovedTsRange c)"
    by simp
  from d1 d2 d3 obtain e1 l1 e2 l2 l where
    main: "mainLoop remaining stepsBetweenChecks (elapsedTimeMs c) ?hi ?l0 = (e1, l1)"
    and cleanup: "cleanupLoop ?hi (l1\<lparr>iVar := indexVar l1\<rparr>) = (e2, l2)"
    and thrown: "thrown ?r = (case e2 of Some e \<Rightarrow> Some e | None \<Rightarrow> e1)"
    and final: "final ?r =
       (coordinator l2)
         \<lparr>queueTextureSync := queueTextureSync (coordinator l2) +
            (if e2 = None \<and> isDefined (needsTextureSyncIndexRange (coordinator l2)) then 1 else 0),
          queueRemovalTask := queueRemovalTask (coordinator l2) +
            (if e2 = None \<and> isDefined (toBeRemovedIndexRange (coordinator l2)) then 1 else 0)\<rparr>"
    by (auto elim: runRemoval_main [of c remaining stepsBetweenChecks])
  from thrown assms(9) have e1: "e1 = None"
    by (cases e2) simp_all
  from assms(1) d1 have lo: "lowBound (toBeRemovedIndexRange c) \<le> j" and hi: "j \<le> ?hi"
    by (simp_all add: covers_bounds)
  from mainLoop_unlimited [OF main e1 assms(8)] hi have reached: "j < indexVar l1"
    by simp
  from assms(3,4) have el: "eligible (sprites c ! j)"
    by (simp add: eligible_def)
  have ix: "index (sprites c ! j) \<noteq> None"
  proof
    assume "index (sprites c ! j) = None"
    with mainLoop_fault [OF main, of j] lo reached assms(2) el have "e1 \<noteq> None"
      by simp
    with e1 show False by simp
  qed
  with el assms(5,6) have "due (elapsedTimeMs c) (sprites c ! j)"
    by (simp add: due_def)
  with mainLoop_visit [OF main, of j] lo reached assms(2)
  have "sprites (coordinator l1) ! j = flashed (sprites c ! j)"
    and "covers (needsTextureSyncIndexRange (coordinator l1)) (the (index (sprites c ! j)))"
    by simp_all
  with cleanupLoop_fields [OF cleanup] final ix assms(5) show ?thesis
    by (simp add: flashed_def)
qed

theorem runRemoval_flashes_due_witness:
  "covers (toBeRemovedIndexRange exampleCoordinator) 0 \<and>
   toBeRemoved (sprites exampleCoordinator ! 0) \<and>
   lifecyclePhase (sprites exampleCoordinator ! 0) = Rest \<and>
   spriteView (sprites exampleCoordinator ! 0) =
     Some \<lparr>TransitionTimeMs = 5, DataView = [5, 1, 2]\<rparr> \<and>
   lowBound (toBeRemovedTsRange exampleCoordinator) \<le> elapsedTimeMs exampleCoordinator \<and>
   thrown (runRemoval exampleCoordinator unlimitedBudget 1) = None \<and>
   map_option DataView
     (spriteView (sprites (final (runRemoval exampleCoordinator unlimitedBudget 1)) ! 0)) =
     Some [0, 0, 0] \<and>
   zeroed (sprites (final (runRemoval exampleCoordinator unlimitedBudget 1)) ! 0) \<and>
   lifecyclePhase (sprites (final (runRemoval exampleCoordinator unlimitedBudget 1)) ! 0) =
     NeedsTextureSync \<and>
   covers (needsTextureSyncIndexRange (final (runRemoval exampleCoordinator unlimitedBudget 1))) 0"
proof -
  have h1: "covers (toBeRemovedIndexRange exampleCoordinator) 0"
    by (simp add: exampleCoordinator_def covers_def)
  have h2: "0 < length (sprites exampleCoordinator)"
    by (simp add: exampleCoordinator_def)
  have h3: "toBeRemoved (sprites exampleCoordinator ! 0)"
    and h4: "lifecyclePhase (sprites exampleCoordinator ! 0) = Rest"
    and h5: "spriteView (sprites exampleCoordinator ! 0) =
      Some \<lparr>TransitionTimeMs = 5, DataView = [5, 1, 2]\<rparr>"
    by (simp_all add: exampleCoordinator_def exampleSprite_def)
  have h6: "TransitionTimeMs \<lparr>TransitionTimeMs = 5, DataView = [5, 1, 2]\<rparr> \<le>
      elapsedTimeMs exampleCoordinator"
    and h7: "lowBound (toBeRemovedTsRange exampleCoordinator) \<le> elapsedTimeMs exampleCoordinator"
    by (simp_all add: exampleCoordinator_def lowBound_def)
  have h8: "0 < unlimitedBudget n" for n
    by (simp add: unlimitedBudget_def)
  have h9: "thrown (runRemoval exampleCoordinator unlimitedBudget 1) = None"
    by code_simp
  have ix: "index (sprites exampleCoordinator ! 0) = Some 0"
    by (simp add: exampleCoordinator_def exampleSprite_def)
  from runRemoval_flashes_due [OF h1 h2 h3 h4 h5 h6 h7 h8 h9] h1 h3 h4 h5 h7 h9 ix
  show ?thesis by simp
qed

theorem runRemoval_flashes_due_counterexample:
  "covers (toBeRemovedIndexRange gatedCoordinator) 0 \<and>
   toBeRemoved (sprites gatedCoordinator ! 0) \<and>
   lifecyclePhase (sprites gatedCoordinator ! 0) = Rest \<and>
   TransitionTimeMs (the (spriteView (sprites gatedCoordinator ! 0))) \<le>
     elapsedTimeMs gatedCoordinator \<and>
   thrown (runRemoval gatedCoordinator unlimitedBudget 1) = None \<and>
   lifecyclePhase (sprites (final (runRemoval gatedCoordinator unlimitedBudget 1)) ! 0) = Rest \<and>
   \<not> zeroed (sprites (final (runRemoval gatedCoordinator unlimitedBudget 1)) ! 0) \<and>
   DataView (the (spriteView (sprites (final (runRemoval gatedCoordinator unlimitedBudget 1)) ! 0))) =
     [5, 1, 2] \<and>
   needsTextureSyncIndexRange (final (runRemoval gatedCoordinator unlimitedBudget 1)) = None \<and>
   covers (toBeRemovedIndexRange faultyCoordinator) 1 \<and>
   toBeRemoved (sprites faultyCoordinator ! 1) \<and>
   lifecyclePhase (sprites faultyCoordinator ! 1) = Rest \<and>
   TransitionTimeMs (the (spriteView (sprites faultyCoordinator ! 1))) \<le>
     elapsedTimeMs faultyCoordinator \<and>
   thrown (runRemoval faultyCoordinator unlimitedBudget 1) =
     Some (InternalError ''Sprite missing required properties'') \<and>
   lifecyclePhase (sprites (final (runRemoval faultyCoordinator unlimitedBudget 1)) ! 1) = Rest \<and>
   \<not> zeroed (sprites (final (runRemoval faultyCoordinator unlimitedBudget 1)) ! 1) \<and>
   DataView (the (spriteView (sprites (final (runRemoval faultyCoordinator unlimitedBudget 1)) ! 1))) =
     [5, 1, 2] \<and>
   needsTextureSyncIndexRange (final (runRemoval faultyCoordinator unlimitedBudget 1)) = None"
  by (intro conjI; code_simp)

text \<open>
  C2, made precise. Let \<^verbatim>\<open>stepsBetweenChecks\<close> be at least 1 and let \<^verbatim>\<open>remaining()\<close> return
  a value at or below zero from its first call on. Then one invocation of \<^verbatim>\<open>runRemoval\<close>,
  however it ends, changes at most \<^verbatim>\<open>stepsBetweenChecks\<close> sprites. When the invocation
  reaches the loop and its cleanup loop raises no exception, the positions that the
  cleanup adds back are exactly the positions of the index span that the main loop has not
  visited and whose sprite is marked \<^verbatim>\<open>toBeRemoved\<close> in the phase \<^verbatim>\<open>Rest\<close>; for each of
  them the to-be-removed index range covers the position and the to-be-removed timestamp
  range covers the \<^verbatim>\<open>TransitionTimeMs\<close> of the sprite's view when the invocation ends.
\<close>

theorem runRemoval_respects_budget:
  assumes "\<And>n. remaining n \<le> 0" and "0 < stepsBetweenChecks"
  shows "card (mutated (sprites c) (sprites (final (runRemoval c remaining stepsBetweenChecks))))
           \<le> stepsBetweenChecks \<and>
         (locals (runRemoval c remaining stepsBetweenChecks) = Some l \<and>
          thrownInFinally (runRemoval c remaining stepsBetweenChecks) = None \<longrightarrow>
          set (readded l) =
            {j \<in> {lowBound (toBeRemovedIndexRange c) .. highBound (toBeRemovedIndexRange c)} -
                   set (visited l).
               j < length (sprites c) \<and> eligible (sprites c ! j)} \<and>
          (\<forall>j \<in> set (readded l).
             covers (toBeRemovedIndexRange (final (runRemoval c remaining stepsBetweenChecks))) j \<and>
             covers (toBeRemovedTsRange (final (runRemoval c remaining stepsBetweenChecks)))
               (TransitionTimeMs (the (spriteView (sprites c ! j))))))"
proof (intro conjI impI)
  show "card (mutated (sprites c) (sprites (final (runRemoval c remaining stepsBetweenChecks))))
        \<le> stepsBetweenChecks"
    using assms by (rule runRemoval_budget)
next
  assume run: "locals (runRemoval c remaining stepsBetweenChecks) = Some l \<and>
    thrownInFinally (runRemoval c remaining stepsBetweenChecks) = None"
  then have loc: "locals (runRemoval c remaining stepsBetweenChecks) = Some l"
    and ok: "thrownInFinally (runRemoval c remaining stepsBetweenChecks) = None"
    by simp_all
  note h = runRemoval_history [OF loc]
  note p = runRemoval_passed [OF loc]
  let ?lo = "lowBound (toBeRemovedIndexRange c)"
  let ?hi = "highBound (toBeRemovedIndexRange c)"
  from h(11) ok have above: "?hi < iVar l"
    by simp
  show "set (readded l) =
      {j \<in> {?lo .. ?hi} - set (visited l). j < length (sprites c) \<and> eligible (sprites c ! j)}"
  proof (intro set_eqI iffI)
    fix j
    assume "j \<in> set (readded l)"
    then have j: "indexVar l \<le> j" "j < iVar l" "eligible (sprites c ! j)"
      by (simp_all add: h(6))
    from j(1,2) h(7,8,10) have "?lo \<le> j" and "j \<le> ?hi"
      by simp_all
    with j p(1) [OF j(1,2)]
    show "j \<in> {j \<in> {?lo .. ?hi} - set (visited l). j < length (sprites c) \<and> eligible (sprites c ! j)}"
      by (simp add: h(4))
  next
    fix j
    assume "j \<in> {j \<in> {?lo .. ?hi} - set (visited l). j < length (sprites c) \<and> eligible (sprites c ! j)}"
    then have "?lo \<le> j" "j \<le> ?hi" "j \<notin> set (visited l)" "eligible (sprites c ! j)"
      by simp_all
    with above show "j \<in> set (readded l)"
      by (simp add: h(4,6))
  qed
  show "\<forall>j \<in> set (readded l).
      covers (toBeRemovedIndexRange (final (runRemoval c remaining stepsBetweenChecks))) j \<and>
      covers (toBeRemovedTsRange (final (runRemoval c remaining stepsBetweenChecks)))
        (TransitionTimeMs (the (spriteView (sprites c ! j))))"
  proof
    fix j
    assume "j \<in> set (readded l)"
    then have j: "indexVar l \<le> j" "j < iVar l" "eligible (sprites c ! j)"
      by (simp_all add: h(6))
    from p(2) [OF j] show "covers (toBeRemovedIndexRange (final (runRemoval c remaining stepsBetweenChecks))) j \<and>
      covers (toBeRemovedTsRange (final (runRemoval c remaining stepsBetweenChecks)))
        (TransitionTimeMs (the (spriteView (sprites c ! j))))"
      by simp
  qed
qed

theorem runRemoval_respects_budget_witness:
  "exhaustedBudget 0 \<le> 0 \<and> (0::nat) < 1 \<and>
   locals (runRemoval exampleCoordinator exhaustedBudget 1) =
     Some (the (locals (runRemoval exampleCoordinator exhaustedBudget 1))) \<and>
   thrownInFinally (runRemoval exampleCoordinator exhaustedBudget 1) = None \<and>
   card (mutated (sprites exampleCoordinator)
     (sprites (final (runRemoval exampleCoordinator exhaustedBudget 1)))) \<le> 1 \<and>
   visited (the (locals (runRemoval exampleCoordinator exhaustedBudget 1))) = [0] \<and>
   readded (the (locals (runRemoval exampleCoordinator exhaustedBudget 1))) = [1, 2] \<and>
   set (readded (the (locals (runRemoval exampleCoordinator exhaustedBudget 1)))) =
     {j \<in> {lowBound (toBeRemovedIndexRange exampleCoordinator) ..
             highBound (toBeRemovedIndexRange exampleCoordinator)} -
            set (visited (the (locals (runRemoval exampleCoordinator exhaustedBudget 1)))).
        j < length (sprites exampleCoordinator) \<and> eligible (sprites exampleCoordinator ! j)}"
proof -
  have h1: "exhaustedBudget n \<le> 0" for n
    by (simp add: exhaustedBudget_def)
  have h2: "(0::nat) < 1"
    by simp
  have h3: "locals (runRemoval exampleCoordinator exhaustedBudget 1) =
      Some (the (locals (runRemoval exampleCoordinator exhaustedBudget 1)))"
    by code_simp
  have h4: "thrownInFinally (runRemoval exampleCoordinator exhaustedBudget 1) = None"
    by code_simp
  have logs: "visited (the (locals (runRemoval exampleCoordinator exhaustedBudget 1))) = [0]"
    "readded (the (locals (runRemoval exampleCoordinator exhaustedBudget 1))) = [1, 2]"
    by code_simp+
  from runRemoval_respects_budget [OF h1 h2, where c = exampleCoordinator
      and l = "the (locals (runRemoval exampleCoordinator exhaustedBudget 1))"] h1 [of 0] h3 h4 logs
  show ?thesis by simp
qed

theorem runRemoval_respects_budget_counterexample:
  "exhaustedBudget 0 \<le> 0 \<and> exhaustedBudget 1 \<le> 0 \<and>
   card (mutated (sprites exampleCoordinator)
     (sprites (final (runRemoval exampleCoordinator exhaustedBudget 0)))) = 2 \<and>
   thrown (runRemoval brokenCoordinator exhaustedBudget 1) =
     Some (InternalError ''Sprite lacks a SpriteView'') \<and>
   visited (the (locals (runRemoval brokenCoordinator exhaustedBudget 1))) = [0] \<and>
   covers (toBeRemovedIndexRange brokenCoordinator) 2 \<and>
   toBeRemoved (sprites brokenCoordinator ! 2) \<and>
   lifecyclePhase (sprites brokenCoordinator ! 2) = Rest \<and>
   readded (the (locals (runRemoval brokenCoordinator exhaustedBudget 1))) = [] \<and>
   toBeRemovedIndexRange (final (runRemoval brokenCoordinator exhaustedBudget 1)) = None \<and>
   toBeRemovedTsRange (final (runRemoval brokenCoordinator exhaustedBudget 1)) = None"
  by (intro conjI; code_simp)

text \<open>
  C3, made precise. Take a sprite that is marked \<^verbatim>\<open>toBeRemoved\<close>, is in the phase
  \<^verbatim>\<open>Rest\<close>, has a defined index property and a view whose \<^verbatim>\<open>TransitionTimeMs\<close> is
  strictly greater than the current elapsed time, and suppose that the to-be-removed index
  range covers its position and the to-be-removed timestamp range covers its transition
  time. After one invocation of \<^verbatim>\<open>runRemoval\<close> whose cleanup loop raises no exception,
  with any budget, the index range still covers the position, the timestamp range still
  covers the transition time, the sprite is as it was, and \<^verbatim>\<open>queueRemovalTask\<close> has been
  called once.
\<close>

theorem runRemoval_keeps_pending:
  assumes "covers (toBeRemovedIndexRange c) j"
    and "covers (toBeRemovedTsRange c) (TransitionTimeMs v)"
    and "j < length (sprites c)"
    and "toBeRemoved (sprites c ! j)"
    and "lifecyclePhase (sprites c ! j) = Rest"
    and "index (sprites c ! j) \<noteq> None"
    and "spriteView (sprites c ! j) = Some v"
    and "elapsedTimeMs c < TransitionTimeMs v"
    and "thrownInFinally (runRemoval c remaining stepsBetweenChecks) = None"
  shows "covers (toBeRemovedIndexRange (final (runRemoval c remaining stepsBetweenChecks))) j \<and>
         covers (toBeRemovedTsRange (final (runRemoval c remaining stepsBetweenChecks)))
           (TransitionTimeMs v) \<and>
         sprites (final (runRemoval c remaining stepsBetweenChecks)) ! j = sprites c ! j \<and>
         queueRemovalTask (final (runRemoval c remaining stepsBetweenChecks)) =
           queueRemovalTask c + 1"
proof (cases "elapsedTimeMs c < lowBound (toBeRemovedTsRange c)")
  case True
  from assms(1,2) have "isDefined (toBeRemovedIndexRange c)" and "isDefined (toBeRemovedTsRange c)"
    by (simp_all add: covers_isDefined)
  from runRemoval_early [OF this True, of remaining stepsBetweenChecks] assms(1,2)
  show ?thesis by simp
next
  case False
  let ?r = "runRemoval c remaining stepsBetweenChecks"
  let ?hi = "highBound (toBeRemovedIndexRange c)"
  let ?l0 = "\<lparr>coordinator = c\<lparr>toBeRemovedIndexRange := None, toBeRemovedTsRange := None\<rparr>,
        indexVar = lowBound (toBeRemovedIndexRange c), step = 1, remainingCalls = 0,
        iVar = lowBound (toBeRemovedIndexRange c), visited = [], scanned = [], readded = []\<rparr>"
  from assms(1,2) have d1: "isDefined (toBeRemovedIndexRange c)"
    and d2: "isDefined (toBeRemovedTsRange c)"
    by (simp_all add: covers_isDefined)
  from d1 d2 False obtain e1 l1 e2 l2 l where
    main: "mainLoop remaining stepsBetweenChecks (elapsedTimeMs c) ?hi ?l0 = (e1, l1)"
    and cleanup: "cleanupLoop ?hi (l1\<lparr>iVar := indexVar l1\<rparr>) = (e2, l2)"
    and e2: "thrownInFinally ?r = e2"
    and final: "final ?r =
       (coordinator l2)
         \<lparr>queueTextureSync := queueTextureSync (coordinator l2) +
            (if e2 = None \<and> isDefined (needsTextureSyncIndexRange (coordinator l2)) then 1 else 0),
          queueRemovalTask := queueRemovalTask (coordinator l2) +
            (if e2 = None \<and> isDefined (toBeRemovedIndexRange (coordinator l2)) then 1 else 0)\<rparr>"
    by (auto elim: runRemoval_main [of c remaining stepsBetweenChecks])
  from e2 assms(9) have none: "e2 = None"
    by simp
  from assms(1) d1 have lo: "lowBound (toBeRemovedIndexRange c) \<le> j" and hi: "j \<le> ?hi"
    by (simp_all add: covers_bounds)
  from assms(4,5) have el: "eligible (sprites c ! j)"
    by (simp add: eligible_def)
  from assms(7,8) have notdue: "\<not> due (elapsedTimeMs c) (sprites c ! j)"
    by (simp add: due_def)
  have same1: "sprites (coordinator l1) ! j = sprites c ! j"
    using mainLoop_change [OF main, of j] assms(3) notdue by auto
  have covered: "covers (toBeRemovedIndexRange (coordinator l2)) j \<and>
        covers (toBeRemovedTsRange (coordinator l2)) (TransitionTimeMs v)"
  proof (cases "j < indexVar l1")
    case True
    from mainLoop_pending [OF main, of j v] lo True assms(3,6,7,8) el
    have "covers (toBeRemovedIndexRange (coordinator l1)) j \<and>
          covers (toBeRemovedTsRange (coordinator l1)) (TransitionTimeMs v)"
      by simp
    with cleanupLoop_covers [OF cleanup, of j "TransitionTimeMs v"] show ?thesis
      by simp
  next
    case False
    from cleanupLoop_iVar [OF cleanup] none hi have "j < iVar l2"
      by simp
    with cleanupLoop_passed [OF cleanup, of j] False same1 el assms(7) show ?thesis
      by simp
  qed
  then have "isDefined (toBeRemovedIndexRange (coordinator l2))"
    by (blast intro: covers_isDefined)
  with covered same1 none final cleanupLoop_fields [OF cleanup] mainLoop_fields [OF main]
  show ?thesis by simp
qed

theorem runRemoval_keeps_pending_witness:
  "covers (toBeRemovedIndexRange exampleCoordinator) 1 \<and>
   covers (toBeRemovedTsRange exampleCoordinator) 20 \<and>
   toBeRemoved (sprites exampleCoordinator ! 1) \<and>
   lifecyclePhase (sprites exampleCoordinator ! 1) = Rest \<and>
   spriteView (sprites exampleCoordinator ! 1) =
     Some \<lparr>TransitionTimeMs = 20, DataView = [20, 1, 2]\<rparr> \<and>
   elapsedTimeMs exampleCoordinator < 20 \<and>
   thrownInFinally (runRemoval exampleCoordinator exhaustedBudget 1) = None \<and>
   covers (toBeRemovedIndexRange (final (runRemoval exampleCoordinator exhaustedBudget 1))) 1 \<and>
   covers (toBeRemovedTsRange (final (runRemoval exampleCoordinator exhaustedBudget 1))) 20 \<and>
   queueRemovalTask (final (runRemoval exampleCoordinator exhaustedBudget 1)) = 1"
proof -
  have h1: "covers (toBeRemovedIndexRange exampleCoordinator) 1"
    by (simp add: exampleCoordinator_def covers_def)
  have h2: "covers (toBeRemovedTsRange exampleCoordinator)
      (TransitionTimeMs \<lparr>TransitionTimeMs = 20, DataView = [20, 1, 2]\<rparr>)"
    by (simp add: exampleCoordinator_def covers_def)
  have h3: "1 < length (sprites exampleCoordinator)"
    by (simp add: exampleCoordinator_def)
  have h4: "toBeRemoved (sprites exampleCoordinator ! 1)"
    and h5: "lifecyclePhase (sprites exampleCoordinator ! 1) = Rest"
    and h6: "index (sprites exampleCoordinator ! 1) \<noteq> None"
    and h7: "spriteView (sprites exampleCoordinator ! 1) =
      Some \<lparr>TransitionTimeMs = 20, DataView = [20, 1, 2]\<rparr>"
    by (simp_all add: exampleCoordinator_def exampleSprite_def)
  have h8: "elapsedTimeMs exampleCoordinator <
      TransitionTimeMs \<lparr>TransitionTimeMs = 20, DataView = [20, 1, 2]\<rparr>"
    by (simp add: exampleCoordinator_def)
  have h9: "thrownInFinally (runRemoval exampleCoordinator exhaustedBudget 1) = None"
    by code_simp
  have q: "queueRemovalTask exampleCoordinator = 0"
    by (simp add: exampleCoordinator_def)
  from runRemoval_keeps_pending [OF h1 h2 h3 h4 h5 h6 h7 h8 h9] h1 h2 h4 h5 h7 h8 h9 q
  show ?thesis by simp
qed

theorem runRemoval_keeps_pending_counterexample:
  "covers (toBeRemovedIndexRange rebasingCoordinator) 1 \<and>
   toBeRemoved (sprites rebasingCoordinator ! 1) \<and>
   lifecyclePhase (sprites rebasingCoordinator ! 1) = NeedsRebase \<and>
   elapsedTimeMs rebasingCoordinator <
     TransitionTimeMs (the (spriteView (sprites rebasingCoordinator ! 1))) \<and>
   covers (toBeRemovedTsRange rebasingCoordinator)
     (TransitionTimeMs (the (spriteView (sprites rebasingCoordinator ! 1)))) \<and>
   thrown (runRemoval rebasingCoordinator unlimitedBudget 1) = None \<and>
   toBeRemovedIndexRange (final (runRemoval rebasingCoordinator unlimitedBudget 1)) = None \<and>
   toBeRemovedTsRange (final (runRemoval rebasingCoordinator unlimitedBudget 1)) = None \<and>
   \<not> covers (toBeRemovedIndexRange (final (runRemoval rebasingCoordinator unlimitedBudget 1))) 1 \<and>
   queueRemovalTask (final (runRemoval rebasingCoordinator unlimitedBudget 1)) =
     queueRemovalTask rebasingCoordinator \<and>
   covers (toBeRemovedIndexRange brokenCoordinator) 2 \<and>
   toBeRemoved (sprites brokenCoordinator ! 2) \<and>
   lifecyclePhase (sprites brokenCoordinator ! 2) = Rest \<and>
   elapsedTimeMs brokenCoordinator <
     TransitionTimeMs (the (spriteView (sprites brokenCoordinator ! 2))) \<and>
   thrown (runRemoval brokenCoordinator exhaustedBudget 1) =
     Some (InternalError ''Sprite lacks a SpriteView'') \<and>
   \<not> covers (toBeRemovedIndexRange (final (runRemoval brokenCoordinator exhaustedBudget 1))) 2 \<and>
   queueRemovalTask (final (runRemoval brokenCoordinator exhaustedBudget 1)) =
     queueRemovalTask brokenCoordinator \<and>
   covers (toBeRemovedIndexRange indexlessCoordinator) 0 \<and>
   toBeRemoved (sprites indexlessCoordinator ! 0) \<and>
   lifecyclePhase (sprites indexlessCoordinator ! 0) = Rest \<and>
   elapsedTimeMs indexlessCoordinator <
     TransitionTimeMs (the (spriteView (sprites indexlessCoordinator ! 0))) \<and>
   thrown (runRemoval indexlessCoordinator unlimitedBudget 1) =
     Some (InternalError ''Sprite missing required properties'') \<and>
   \<not> covers (toBeRemovedIndexRange (final (runRemoval indexlessCoordinator unlimitedBudget 1))) 0 \<and>
   queueRemovalTask (final (runRemoval indexlessCoordinator unlimitedBudget 1)) =
     queueRemovalTask indexlessCoordinator"
  by (intro conjI; code_simp)

text \<open>
  C4. In every invocation of \<^verbatim>\<open>runRemoval\<close> that reaches the loop, the positions that the
  body of the main loop has processed all lie below the value that \<^verbatim>\<open>index\<close> has when
  the \<^verbatim>\<open>finally\<close> block reads it, and the positions that the cleanup scans, among them those
  it adds back to the to-be-removed ranges, all lie at or above it: no position is both
  visited by the loop and scanned or re-added by the cleanup.
\<close>

theorem runRemoval_no_double_counting:
  "locals (runRemoval c remaining stepsBetweenChecks) = Some l \<longrightarrow>
   set (visited l) \<inter> set (scanned l) = {} \<and>
   set (visited l) \<inter> set (readded l) = {} \<and>
   set (readded l) \<subseteq> set (scanned l) \<and>
   (\<forall>j \<in> set (visited l). j < indexVar l) \<and>
   (\<forall>j \<in> set (scanned l). indexVar l \<le> j)"
proof
  assume run: "locals (runRemoval c remaining stepsBetweenChecks) = Some l"
  note h = runRemoval_history [OF run]
  have "set (visited l) \<inter> set (scanned l) = {}"
    by (auto simp: h(4,5))
  moreover have "set (visited l) \<inter> set (readded l) = {}"
    by (auto simp: h(4,6))
  moreover have "set (readded l) \<subseteq> set (scanned l)"
    by (auto simp: h(5,6))
  moreover have "\<forall>j \<in> set (visited l). j < indexVar l"
    by (simp add: h(4))
  moreover have "\<forall>j \<in> set (scanned l). indexVar l \<le> j"
    by (simp add: h(5))
  ultimately show "set (visited l) \<inter> set (scanned l) = {} \<and>
   set (visited l) \<inter> set (readded l) = {} \<and>
   set (readded l) \<subseteq> set (scanned l) \<and>
   (\<forall>j \<in> set (visited l). j < indexVar l) \<and>
   (\<forall>j \<in> set (scanned l). indexVar l \<le> j)"
    by blast
qed

theorem runRemoval_no_double_counting_witness:
  "locals (runRemoval exampleCoordinator exhaustedBudget 1) =
     Some (the (locals (runRemoval exampleCoordinator exhaustedBudget 1))) \<and>
   visited (the (locals (runRemoval exampleCoordinator exhaustedBudget 1))) = [0] \<and>
   scanned (the (locals (runRemoval exampleCoordinator exhaustedBudget 1))) = [1, 2] \<and>
   readded (the (locals (runRemoval exampleCoordinator exhaustedBudget 1))) = [1, 2] \<and>
   set (visited (the (locals (runRemoval exampleCoordinator exhaustedBudget 1)))) \<inter>
     set (scanned (the (locals (runRemoval exampleCoordinator exhaustedBudget 1)))) = {}"
proof -
  have reached: "locals (runRemoval exampleCoordinator exhaustedBudget 1) =
     Some (the (locals (runRemoval exampleCoordinator exhaustedBudget 1)))"
    by code_simp
  have "visited (the (locals (runRemoval exampleCoordinator exhaustedBudget 1))) = [0]"
    and "scanned (the (locals (runRemoval exampleCoordinator exhaustedBudget 1))) = [1, 2]"
    and "readded (the (locals (runRemoval exampleCoordinator exhaustedBudget 1))) = [1, 2]"
    by code_simp+
  with reached
    runRemoval_no_double_counting [of exampleCoordinator exhaustedBudget 1
      "the (locals (runRemoval exampleCoordinator exhaustedBudget 1))"]
  show ?thesis by blast
qed

text \<open>
  C5. When the to-be-removed index range or the to-be-removed timestamp range is undefined,
  \<^verbatim>\<open>runRemoval\<close> raises the internal error ``No sprites are queued for removal'' and
  leaves the coordinator, with its sprites, ranges and queues, as it was. In particular,
  when a run has left the index range undefined, a second run right after it (at any clock
  reading, with any budget) is such a failure.
\<close>

theorem runRemoval_requires_ranges:
  "(\<not> isDefined (toBeRemovedIndexRange c) \<or> \<not> isDefined (toBeRemovedTsRange c) \<longrightarrow>
      thrown (runRemoval c remaining stepsBetweenChecks) =
        Some (InternalError ''No sprites are queued for removal'') \<and>
      final (runRemoval c remaining stepsBetweenChecks) = c) \<and>
   (\<not> isDefined (toBeRemovedIndexRange (final (runRemoval c remaining stepsBetweenChecks))) \<longrightarrow>
      thrown (runRemoval ((final (runRemoval c remaining stepsBetweenChecks))\<lparr>elapsedTimeMs := t\<rparr>)
                remaining' stepsBetweenChecks') =
        Some (InternalError ''No sprites are queued for removal'') \<and>
      final (runRemoval ((final (runRemoval c remaining stepsBetweenChecks))\<lparr>elapsedTimeMs := t\<rparr>)
                remaining' stepsBetweenChecks') =
        (final (runRemoval c remaining stepsBetweenChecks))\<lparr>elapsedTimeMs := t\<rparr>)"
  by (simp add: runRemoval_undefined)

theorem runRemoval_requires_ranges_witness:
  "\<not> isDefined (toBeRemovedTsRange (drainedCoordinator\<lparr>toBeRemovedTsRange := None\<rparr>)) \<and>
   thrown (runRemoval (drainedCoordinator\<lparr>toBeRemovedTsRange := None\<rparr>) unlimitedBudget 1) =
     Some (InternalError ''No sprites are queued for removal'') \<and>
   final (runRemoval (drainedCoordinator\<lparr>toBeRemovedTsRange := None\<rparr>) unlimitedBudget 1) =
     drainedCoordinator\<lparr>toBeRemovedTsRange := None\<rparr> \<and>
   \<not> isDefined (toBeRemovedIndexRange (final (runRemoval drainedCoordinator unlimitedBudget 1))) \<and>
   thrown (runRemoval ((final (runRemoval drainedCoordinator unlimitedBudget 1))\<lparr>elapsedTimeMs := 11\<rparr>)
             unlimitedBudget 1) =
     Some (InternalError ''No sprites are queued for removal'') \<and>
   final (runRemoval ((final (runRemoval drainedCoordinator unlimitedBudget 1))\<lparr>elapsedTimeMs := 11\<rparr>)
             unlimitedBudget 1) =
     (final (runRemoval drainedCoordinator unlimitedBudget 1))\<lparr>elapsedTimeMs := 11\<rparr>"
proof -
  have undefined:
    "\<not> isDefined (toBeRemovedTsRange (drainedCoordinator\<lparr>toBeRemovedTsRange := None\<rparr>))"
    by (simp add: isDefined_def)
  have drained:
    "\<not> isDefined (toBeRemovedIndexRange (final (runRemoval drainedCoordinator unlimitedBudget 1)))"
    by code_simp
  from undefined drained
    runRemoval_requires_ranges
      [of "drainedCoordinator\<lparr>toBeRemovedTsRange := None\<rparr>" unlimitedBudget 1 11 unlimitedBudget 1]
    runRemoval_requires_ranges [of drainedCoordinator unlimitedBudget 1 11 unlimitedBudget 1]
  show ?thesis by blast
qed

text \<open>
  C6, made precise. When an invocation of \<^verbatim>\<open>runRemoval\<close> reaches the loop and its cleanup
  loop raises no exception (whether the main loop ran to its end, stopped for lack of
  budget or raised an exception), the end of the cleanup calls \<^verbatim>\<open>queueTextureSync\<close> once
  if the needs-texture-sync range is then defined and not at all otherwise, and calls
  \<^verbatim>\<open>queueRemovalTask\<close> once if the to-be-removed index range is then defined and not at
  all otherwise. The needs-texture-sync range is defined at that point exactly when it was
  defined at entry or the invocation has changed a sprite.
\<close>

theorem runRemoval_schedules:
  assumes "locals (runRemoval c remaining stepsBetweenChecks) = Some l"
    and "thrownInFinally (runRemoval c remaining stepsBetweenChecks) = None"
  shows "queueTextureSync (final (runRemoval c remaining stepsBetweenChecks)) =
           queueTextureSync c +
           (if isDefined (needsTextureSyncIndexRange (final (runRemoval c remaining stepsBetweenChecks)))
            then 1 else 0) \<and>
         queueRemovalTask (final (runRemoval c remaining stepsBetweenChecks)) =
           queueRemovalTask c +
           (if isDefined (toBeRemovedIndexRange (final (runRemoval c remaining stepsBetweenChecks)))
            then 1 else 0) \<and>
         isDefined (needsTextureSyncIndexRange (final (runRemoval c remaining stepsBetweenChecks))) =
           (isDefined (needsTextureSyncIndexRange c) \<or>
            mutated (sprites c) (sprites (final (runRemoval c remaining stepsBetweenChecks))) \<noteq> {})"
proof -
  let ?r = "runRemoval c remaining stepsBetweenChecks"
  let ?hi = "highBound (toBeRemovedIndexRange c)"
  let ?l0 = "\<lparr>coordinator = c\<lparr>toBeRemovedIndexRange := None, toBeRemovedTsRange := None\<rparr>,
        indexVar = lowBound (toBeRemovedIndexRange c), step = 1, remainingCalls = 0,
        iVar = lowBound (toBeRemovedIndexRange c), visited = [], scanned = [], readded = []\<rparr>"
  note h = runRemoval_history [OF assms(1)]
  from h(1,2,3) obtain e1 l1 e2 l2 l' where
    main: "mainLoop remaining stepsBetweenChecks (elapsedTimeMs c) ?hi ?l0 = (e1, l1)"
    and cleanup: "cleanupLoop ?hi (l1\<lparr>iVar := indexVar l1\<rparr>) = (e2, l2)"
    and e2: "thrownInFinally ?r = e2"
    and final: "final ?r =
       (coordinator l2)
         \<lparr>queueTextureSync := queueTextureSync (coordinator l2) +
            (if e2 = None \<and> isDefined (needsTextureSyncIndexRange (coordinator l2)) then 1 else 0),
          queueRemovalTask := queueRemovalTask (coordinator l2) +
            (if e2 = None \<and> isDefined (toBeRemovedIndexRange (coordinator l2)) then 1 else 0)\<rparr>"
    by (auto elim: runRemoval_main [of c remaining stepsBetweenChecks])
  from e2 assms(2) have none: "e2 = None"
    by simp
  note f = cleanupLoop_fields [OF cleanup]
  note m = mainLoop_fields [OF main]
  from mainLoop_needsTextureSync [OF main] f
  have "isDefined (needsTextureSyncIndexRange (coordinator l2)) =
        (isDefined (needsTextureSyncIndexRange c) \<or>
         mutated (sprites c) (sprites (coordinator l2)) \<noteq> {})"
    by simp
  with final none f m show ?thesis
    by simp
qed

theorem runRemoval_schedules_witness:
  "locals (runRemoval exampleCoordinator exhaustedBudget 1) =
     Some (the (locals (runRemoval exampleCoordinator exhaustedBudget 1))) \<and>
   thrownInFinally (runRemoval exampleCoordinator exhaustedBudget 1) = None \<and>
   isDefined (needsTextureSyncIndexRange (final (runRemoval exampleCoordinator exhaustedBudget 1))) \<and>
   isDefined (toBeRemovedIndexRange (final (runRemoval exampleCoordinator exhaustedBudget 1))) \<and>
   queueTextureSync (final (runRemoval exampleCoordinator exhaustedBudget 1)) = 1 \<and>
   queueRemovalTask (final (runRemoval exampleCoordinator exhaustedBudget 1)) = 1"
proof -
  have h1: "locals (runRemoval exampleCoordinator exhaustedBudget 1) =
      Some (the (locals (runRemoval exampleCoordinator exhaustedBudget 1)))"
    by code_simp
  have h2: "thrownInFinally (runRemoval exampleCoordinator exhaustedBudget 1) = None"
    by code_simp
  have d: "isDefined (needsTextureSyncIndexRange (final (runRemoval exampleCoordinator exhaustedBudget 1)))"
    "isDefined (toBeRemovedIndexRange (final (runRemoval exampleCoordinator exhaustedBudget 1)))"
    by code_simp+
  have q: "queueTextureSync exampleCoordinator = 0" "queueRemovalTask exampleCoordinator = 0"
    by (simp_all add: exampleCoordinator_def)
  from runRemoval_schedules [OF h1 h2] h1 h2 d q
  show ?thesis by simp
qed

theorem runRemoval_schedules_counterexample:
  "isDefined (needsTextureSyncIndexRange syncPendingCoordinator) \<and>
   thrown (runRemoval syncPendingCoordinator unlimitedBudget 1) = None \<and>
   needsTextureSyncIndexRange (final (runRemoval syncPendingCoordinator unlimitedBudget 1)) =
     needsTextureSyncIndexRange syncPendingCoordinator \<and>
   sprites (final (runRemoval syncPendingCoordinator unlimitedBudget 1)) =
     sprites syncPendingCoordinator \<and>
   queueTextureSync (final (runRemoval syncPendingCoordinator unlimitedBudget 1)) =
     queueTextureSync syncPendingCoordinator + 1 \<and>
   needsTextureSyncIndexRange brokenCoordinator = None \<and>
   thrown (runRemoval brokenCoordinator exhaustedBudget 1) =
     Some (InternalError ''Sprite lacks a SpriteView'') \<and>
   needsTextureSyncIndexRange (final (runRemoval brokenCoordinator exhaustedBudget 1)) =
     Some (0, 0) \<and>
   queueTextureSync (final (runRemoval brokenCoordinator exhaustedBudget 1)) =
     queueTextureSync brokenCoordinator"
  by (intro conjI; code_simp)

text \<open>
  C7, made precise. Let an invocation of \<^verbatim>\<open>runRemoval\<close> reach the \<^verbatim>\<open>try\<close> statement, and
  let the sprite at a position of the sprite array be marked \<^verbatim>\<open>toBeRemoved\<close> and in the
  phase \<^verbatim>\<open>Rest\<close>.
  \<^item> If the main loop visits the position and the sprite has no view or no index, the
    \<^verbatim>\<open>try\<close> block raises the internal error ``Sprite missing required properties'' there
    and the invocation ends with an exception; when the to-be-removed index range lies
    inside the sprite array, that exception is an internal error (this one, or ``Sprite
    lacks a SpriteView'' of the cleanup). The loop stops there: the sprite and every sprite
    after it are as they were. The cleanup still runs, from the next position on: the final
    to-be-removed ranges cover every \<^verbatim>\<open>toBeRemoved\<close> sprite in \<^verbatim>\<open>Rest\<close> at a position the
    cleanup has passed, together with its transition time; and when the cleanup loop raises
    nothing, it has passed every position up to the high bound, the invocation raises the
    error of the \<^verbatim>\<open>try\<close> block, and \<^verbatim>\<open>queueTextureSync\<close> and \<^verbatim>\<open>queueRemovalTask\<close> have
    each been called once if their range is defined at the end and not at all otherwise.
  \<^item> If the cleanup scans the position and the sprite has no view, the \<^verbatim>\<open>finally\<close> block
    and the invocation raise the internal error ``Sprite lacks a SpriteView'' there; the
    final ranges cover what the cleanup has added back before that position, and neither
    task is queued.
  \<^item> Earlier progress stays: every sprite that the main loop has visited and that was due
    has its view zeroed, its zeroed flag set, the phase \<^verbatim>\<open>NeedsTextureSync\<close> and its index
    inside the needs-texture-sync range in the final state, and every visited sprite that
    was not yet due is covered by the final to-be-removed ranges.
\<close>

theorem runRemoval_fault_is_fatal:
  assumes "locals (runRemoval c remaining stepsBetweenChecks) = Some l"
    and "j < length (sprites c)"
    and "eligible (sprites c ! j)"
  shows "(j \<in> set (visited l) \<and>
          (spriteView (sprites c ! j) = None \<or> index (sprites c ! j) = None) \<longrightarrow>
            thrownInTry (runRemoval c remaining stepsBetweenChecks) =
              Some (InternalError ''Sprite missing required properties'') \<and>
            thrown (runRemoval c remaining stepsBetweenChecks) \<noteq> None \<and>
            (highBound (toBeRemovedIndexRange c) < length (sprites c) \<longrightarrow>
               thrown (runRemoval c remaining stepsBetweenChecks) =
                 Some (InternalError ''Sprite missing required properties'') \<or>
               thrown (runRemoval c remaining stepsBetweenChecks) =
                 Some (InternalError ''Sprite lacks a SpriteView'')) \<and>
            indexVar l = Suc j \<and>
            sprites (final (runRemoval c remaining stepsBetweenChecks)) ! j = sprites c ! j \<and>
            (\<forall>k. j < k \<and> k < length (sprites c) \<longrightarrow>
               sprites (final (runRemoval c remaining stepsBetweenChecks)) ! k = sprites c ! k) \<and>
            (\<forall>k. j < k \<and> k < iVar l \<and> eligible (sprites c ! k) \<longrightarrow>
               covers (toBeRemovedIndexRange (final (runRemoval c remaining stepsBetweenChecks))) k \<and>
               covers (toBeRemovedTsRange (final (runRemoval c remaining stepsBetweenChecks)))
                 (TransitionTimeMs (the (spriteView (sprites c ! k))))) \<and>
            (thrownInFinally (runRemoval c remaining stepsBetweenChecks) = None \<longrightarrow>
               thrown (runRemoval c remaining stepsBetweenChecks) =
                 Some (InternalError ''Sprite missing required properties'') \<and>
               iVar l = Suc (highBound (toBeRemovedIndexRange c)) \<and>
               queueTextureSync (final (runRemoval c remaining stepsBetweenChecks)) =
                 queueTextureSync c +
                 (if isDefined (needsTextureSyncIndexRange
                       (final (runRemoval c remaining stepsBetweenChecks))) then 1 else 0) \<and>
               queueRemovalTask (final (runRemoval c remaining stepsBetweenChecks)) =
                 queueRemovalTask c +
                 (if isDefined (toBeRemovedIndexRange
                       (final (runRemoval c remaining stepsBetweenChecks))) then 1 else 0))) \<and>
         (j \<in> set (scanned l) \<and> spriteView (sprites c ! j) = None \<longrightarrow>
            thrownInFinally (runRemoval c remaining stepsBetweenChecks) =
              Some (InternalError ''Sprite lacks a SpriteView'') \<and>
            thrown (runRemoval c remaining stepsBetweenChecks) =
              Some (InternalError ''Sprite lacks a SpriteView'') \<and>
            iVar l = j \<and>
            (\<forall>k. indexVar l \<le> k \<and> k < j \<and> eligible (sprites c ! k) \<longrightarrow>
               covers (toBeRemovedIndexRange (final (runRemoval c remaining stepsBetweenChecks))) k \<and>
               covers (toBeRemovedTsRange (final (runRemoval c remaining stepsBetweenChecks)))
                 (TransitionTimeMs (the (spriteView (sprites c ! k))))) \<and>
            queueTextureSync (final (runRemoval c remaining stepsBetweenChecks)) = queueTextureSync c \<and>
            queueRemovalTask (final (runRemoval c remaining stepsBetweenChecks)) = queueRemovalTask c) \<and>
         (\<forall>k \<in> set (visited l). k < length (sprites c) \<longrightarrow>
            (due (elapsedTimeMs c) (sprites c ! k) \<longrightarrow>
               map_option DataView
                 (spriteView (sprites (final (runRemoval c remaining stepsBetweenChecks)) ! k)) =
                 map_option (\<lambda>v. replicate (length (DataView v)) 0) (spriteView (sprites c ! k)) \<and>
               zeroed (sprites (final (runRemoval c remaining stepsBetweenChecks)) ! k) \<and>
               lifecyclePhase (sprites (final (runRemoval c remaining stepsBetweenChecks)) ! k) =
                 NeedsTextureSync \<and>
               covers (needsTextureSyncIndexRange (final (runRemoval c remaining stepsBetweenChecks)))
                 (the (index (sprites c ! k)))) \<and>
            (eligible (sprites c ! k) \<and> index (sprites c ! k) \<noteq> None \<and>
             spriteView (sprites c ! k) \<noteq> None \<and>
             elapsedTimeMs c < TransitionTimeMs (the (spriteView (sprites c ! k))) \<longrightarrow>
               covers (toBeRemovedIndexRange (final (runRemoval c remaining stepsBetweenChecks))) k \<and>
               covers (toBeRemovedTsRange (final (runRemoval c remaining stepsBetweenChecks)))
                 (TransitionTimeMs (the (spriteView (sprites c ! k))))))"
    (is "(?P1 \<longrightarrow> ?X) \<and> (?P2 \<longrightarrow> ?Y) \<and> ?Z")
proof -
  let ?r = "runRemoval c remaining stepsBetweenChecks"
  let ?lo = "lowBound (toBeRemovedIndexRange c)"
  let ?hi = "highBound (toBeRemovedIndexRange c)"
  let ?l0 = "\<lparr>coordinator = c\<lparr>toBeRemovedIndexRange := None, toBeRemovedTsRange := None\<rparr>,
        indexVar = lowBound (toBeRemovedIndexRange c), step = 1, remainingCalls = 0,
        iVar = lowBound (toBeRemovedIndexRange c), visited = [], scanned = [], readded = []\<rparr>"
  note h = runRemoval_history [OF assms(1)]
  note p = runRemoval_passed [OF assms(1)]
  from h(1,2,3) assms(1) obtain e1 l1 e2 l2 where
    main: "mainLoop remaining stepsBetweenChecks (elapsedTimeMs c) ?hi ?l0 = (e1, l1)"
    and cleanup: "cleanupLoop ?hi (l1\<lparr>iVar := indexVar l1\<rparr>) = (e2, l2)"
    and thrown: "thrown ?r = (case e2 of Some e \<Rightarrow> Some e | None \<Rightarrow> e1)"
    and e1: "thrownInTry ?r = e1"
    and e2: "thrownInFinally ?r = e2"
    and l: "l = l2\<lparr>coordinator := final ?r\<rparr>"
    and final: "final ?r =
       (coordinator l2)
         \<lparr>queueTextureSync := queueTextureSync (coordinator l2) +
            (if e2 = None \<and> isDefined (needsTextureSyncIndexRange (coordinator l2)) then 1 else 0),
          queueRemovalTask := queueRemovalTask (coordinator l2) +
            (if e2 = None \<and> isDefined (toBeRemovedIndexRange (coordinator l2)) then 1 else 0)\<rparr>"
    by (auto elim: runRemoval_main [of c remaining stepsBetweenChecks])
  note f = cleanupLoop_fields [OF cleanup]
  note m = mainLoop_fields [OF main]
  from l f have ix: "indexVar l = indexVar l1" and iv: "iVar l = iVar l2"
    by simp_all
  from f final have sprites: "sprites (final ?r) = sprites (coordinator l1)"
    by simp
  from f m final have queues:
    "queueTextureSync (final ?r) = queueTextureSync c +
       (if e2 = None \<and> isDefined (needsTextureSyncIndexRange (final ?r)) then 1 else 0)"
    "queueRemovalTask (final ?r) = queueRemovalTask c +
       (if e2 = None \<and> isDefined (toBeRemovedIndexRange (final ?r)) then 1 else 0)"
    by simp_all
  have in_span: "?lo \<le> k \<and> k < indexVar l1" if "k \<in> set (visited l)" for k
    using that ix by (auto simp: h(4))
  have cleanup_error: "x = InternalError ''Sprite lacks a SpriteView''"
    if "e2 = Some x" and "iVar l2 < length (sprites c)" for x
  proof -
    from that(2) m have "iVar l2 < length (sprites (coordinator (l1\<lparr>iVar := indexVar l1\<rparr>)))"
      by simp
    with cleanupLoop_thrown [OF cleanup that(1)] show ?thesis
      by (simp split: if_splits)
  qed
  have first: "thrownInTry ?r = Some (InternalError ''Sprite missing required properties'') \<and>
      thrown ?r \<noteq> None \<and>
      (?hi < length (sprites c) \<longrightarrow>
         thrown ?r = Some (InternalError ''Sprite missing required properties'') \<or>
         thrown ?r = Some (InternalError ''Sprite lacks a SpriteView'')) \<and>
      indexVar l = Suc j \<and>
      sprites (final ?r) ! j = sprites c ! j \<and>
      (\<forall>k. j < k \<and> k < length (sprites c) \<longrightarrow> sprites (final ?r) ! k = sprites c ! k) \<and>
      (\<forall>k. j < k \<and> k < iVar l \<and> eligible (sprites c ! k) \<longrightarrow>
         covers (toBeRemovedIndexRange (final ?r)) k \<and>
         covers (toBeRemovedTsRange (final ?r)) (TransitionTimeMs (the (spriteView (sprites c ! k))))) \<and>
      (thrownInFinally ?r = None \<longrightarrow>
         thrown ?r = Some (InternalError ''Sprite missing required properties'') \<and>
         iVar l = Suc ?hi \<and>
         queueTextureSync (final ?r) = queueTextureSync c +
           (if isDefined (needsTextureSyncIndexRange (final ?r)) then 1 else 0) \<and>
         queueRemovalTask (final ?r) = queueRemovalTask c +
           (if isDefined (toBeRemovedIndexRange (final ?r)) then 1 else 0))"
    if vis: "j \<in> set (visited l)"
      and bad: "spriteView (sprites c ! j) = None \<or> index (sprites c ! j) = None"
  proof -
    from in_span [OF vis] mainLoop_fault [OF main, of j] assms(2,3) bad
    have t: "e1 = Some (InternalError ''Sprite missing required properties'')"
      and stop: "indexVar l1 = Suc j"
      by simp_all
    from bad have notdue: "\<not> due (elapsedTimeMs c) (sprites c ! j)"
      by (auto simp: due_def)
    have c1: "thrown ?r \<noteq> None"
      using thrown t by (cases e2) simp_all
    have c2: "thrown ?r = Some (InternalError ''Sprite missing required properties'') \<or>
          thrown ?r = Some (InternalError ''Sprite lacks a SpriteView'')"
      if inside: "?hi < length (sprites c)"
    proof (cases e2)
      case None
      with thrown t show ?thesis by simp
    next
      case (Some x)
      with h(11) e2 iv inside have "iVar l2 < length (sprites c)"
        by simp
      with thrown cleanup_error [OF Some] Some show ?thesis by simp
    qed
    have c3: "sprites (final ?r) ! j = sprites c ! j"
      using mainLoop_change [OF main, of j] assms(2) notdue sprites by auto
    have c4: "sprites (final ?r) ! k = sprites c ! k" if "j < k" for k
      using mainLoop_outside [OF main, of k] that stop sprites by simp
    have c5: "covers (toBeRemovedIndexRange (final ?r)) k \<and>
        covers (toBeRemovedTsRange (final ?r)) (TransitionTimeMs (the (spriteView (sprites c ! k))))"
      if "j < k" "k < iVar l" "eligible (sprites c ! k)" for k
    proof -
      from that(1) ix stop have "indexVar l \<le> k"
        by simp
      from p(2) [OF this that(2,3)] show ?thesis
        by simp
    qed
    have c6: "thrown ?r = Some (InternalError ''Sprite missing required properties'') \<and>
         iVar l = Suc ?hi \<and>
         queueTextureSync (final ?r) = queueTextureSync c +
           (if isDefined (needsTextureSyncIndexRange (final ?r)) then 1 else 0) \<and>
         queueRemovalTask (final ?r) = queueRemovalTask c +
           (if isDefined (toBeRemovedIndexRange (final ?r)) then 1 else 0)"
      if ok: "thrownInFinally ?r = None"
    proof -
      from ok e2 have none: "e2 = None"
        by simp
      from in_span [OF vis] stop h(8) ix have "Suc j \<le> Suc ?hi"
        by (simp add: max_def split: if_splits)
      with h(10,11) ok ix stop have "iVar l = Suc ?hi"
        by simp
      with none thrown t queues show ?thesis
        by simp
    qed
    from t e1 have a1: "thrownInTry ?r = Some (InternalError ''Sprite missing required properties'')"
      by simp
    from ix stop have a2: "indexVar l = Suc j"
      by simp
    from c2 have a3: "?hi < length (sprites c) \<longrightarrow>
         thrown ?r = Some (InternalError ''Sprite missing required properties'') \<or>
         thrown ?r = Some (InternalError ''Sprite lacks a SpriteView'')"
      by (rule impI)
    from c4 have a4: "\<forall>k. j < k \<and> k < length (sprites c) \<longrightarrow> sprites (final ?r) ! k = sprites c ! k"
      by simp
    from c5 have a5: "\<forall>k. j < k \<and> k < iVar l \<and> eligible (sprites c ! k) \<longrightarrow>
         covers (toBeRemovedIndexRange (final ?r)) k \<and>
         covers (toBeRemovedTsRange (final ?r)) (TransitionTimeMs (the (spriteView (sprites c ! k))))"
      by simp
    from c6 have a6: "thrownInFinally ?r = None \<longrightarrow>
         thrown ?r = Some (InternalError ''Sprite missing required properties'') \<and>
         iVar l = Suc ?hi \<and>
         queueTextureSync (final ?r) = queueTextureSync c +
           (if isDefined (needsTextureSyncIndexRange (final ?r)) then 1 else 0) \<and>
         queueRemovalTask (final ?r) = queueRemovalTask c +
           (if isDefined (toBeRemovedIndexRange (final ?r)) then 1 else 0)"
      by (rule impI)
    show ?thesis
      by (intro conjI) (rule a1 c1 a3 a2 c3 a4 a5 a6)+
  qed
  have second: "thrownInFinally ?r = Some (InternalError ''Sprite lacks a SpriteView'') \<and>
      thrown ?r = Some (InternalError ''Sprite lacks a SpriteView'') \<and>
      iVar l = j \<and>
      (\<forall>k. indexVar l \<le> k \<and> k < j \<and> eligible (sprites c ! k) \<longrightarrow>
         covers (toBeRemovedIndexRange (final ?r)) k \<and>
         covers (toBeRemovedTsRange (final ?r)) (TransitionTimeMs (the (spriteView (sprites c ! k))))) \<and>
      queueTextureSync (final ?r) = queueTextureSync c \<and>
      queueRemovalTask (final ?r) = queueRemovalTask c"
    if sc: "j \<in> set (scanned l)" and bad: "spriteView (sprites c ! j) = None"
  proof -
    from sc have lower: "indexVar l \<le> j"
      by (simp add: h(5))
    have notbelow: "\<not> j < iVar l"
    proof
      assume "j < iVar l"
      from p(2) [OF lower this assms(3)] bad show False
        by simp
    qed
    with sc e2 obtain x where x: "e2 = Some x" and at: "iVar l = j"
      by (cases e2) (auto simp: h(5))
    from at iv assms(2) have "iVar l2 < length (sprites c)"
      by simp
    from cleanup_error [OF x this] have kind: "x = InternalError ''Sprite lacks a SpriteView''" .
    have "covers (toBeRemovedIndexRange (final ?r)) k \<and>
        covers (toBeRemovedTsRange (final ?r)) (TransitionTimeMs (the (spriteView (sprites c ! k))))"
      if "indexVar l \<le> k" "k < j" "eligible (sprites c ! k)" for k
      using p(2) [OF that(1) _ that(3)] that(2) at by simp
    then have b4: "\<forall>k. indexVar l \<le> k \<and> k < j \<and> eligible (sprites c ! k) \<longrightarrow>
         covers (toBeRemovedIndexRange (final ?r)) k \<and>
         covers (toBeRemovedTsRange (final ?r)) (TransitionTimeMs (the (spriteView (sprites c ! k))))"
      by simp
    from x kind e2 have b1: "thrownInFinally ?r = Some (InternalError ''Sprite lacks a SpriteView'')"
      by simp
    from x kind thrown have b2: "thrown ?r = Some (InternalError ''Sprite lacks a SpriteView'')"
      by simp
    from x queues have b5: "queueTextureSync (final ?r) = queueTextureSync c"
      and b6: "queueRemovalTask (final ?r) = queueRemovalTask c"
      by simp_all
    show ?thesis
      by (intro conjI) (rule b1 b2 at b4 b5 b6)+
  qed
  have third: "(due (elapsedTimeMs c) (sprites c ! k) \<longrightarrow>
         map_option DataView (spriteView (sprites (final ?r) ! k)) =
           map_option (\<lambda>v. replicate (length (DataView v)) 0) (spriteView (sprites c ! k)) \<and>
         zeroed (sprites (final ?r) ! k) \<and>
         lifecyclePhase (sprites (final ?r) ! k) = NeedsTextureSync \<and>
         covers (needsTextureSyncIndexRange (final ?r)) (the (index (sprites c ! k)))) \<and>
      (eligible (sprites c ! k) \<and> index (sprites c ! k) \<noteq> None \<and>
       spriteView (sprites c ! k) \<noteq> None \<and>
       elapsedTimeMs c < TransitionTimeMs (the (spriteView (sprites c ! k))) \<longrightarrow>
         covers (toBeRemovedIndexRange (final ?r)) k \<and>
         covers (toBeRemovedTsRange (final ?r)) (TransitionTimeMs (the (spriteView (sprites c ! k)))))"
    if vis: "k \<in> set (visited l)" and len: "k < length (sprites c)" for k
  proof (intro conjI impI)
    assume "due (elapsedTimeMs c) (sprites c ! k)"
    with in_span [OF vis] len mainLoop_visit [OF main, of k] sprites
    have "sprites (final ?r) ! k = flashed (sprites c ! k)"
      and "covers (needsTextureSyncIndexRange (coordinator l1)) (the (index (sprites c ! k)))"
      by simp_all
    with f final
    show "map_option DataView (spriteView (sprites (final ?r) ! k)) =
           map_option (\<lambda>v. replicate (length (DataView v)) 0) (spriteView (sprites c ! k))"
      and "zeroed (sprites (final ?r) ! k)"
      and "lifecyclePhase (sprites (final ?r) ! k) = NeedsTextureSync"
      and "covers (needsTextureSyncIndexRange (final ?r)) (the (index (sprites c ! k)))"
      by (simp_all add: flashed_def option.map_comp comp_def)
  next
    assume pending: "eligible (sprites c ! k) \<and> index (sprites c ! k) \<noteq> None \<and>
       spriteView (sprites c ! k) \<noteq> None \<and>
       elapsedTimeMs c < TransitionTimeMs (the (spriteView (sprites c ! k)))"
    then obtain v where v: "spriteView (sprites c ! k) = Some v"
      by auto
    with pending in_span [OF vis] len mainLoop_pending [OF main, of k v]
    have "covers (toBeRemovedIndexRange (coordinator l1)) k \<and>
          covers (toBeRemovedTsRange (coordinator l1)) (TransitionTimeMs v)"
      by simp
    with cleanupLoop_covers [OF cleanup, of k "TransitionTimeMs v"] final v
    show "covers (toBeRemovedIndexRange (final ?r)) k"
      and "covers (toBeRemovedTsRange (final ?r)) (TransitionTimeMs (the (spriteView (sprites c ! k))))"
      by simp_all
  qed
  show ?thesis
  proof (intro conjI)
    show "?P1 \<longrightarrow> ?X"
    proof
      assume "?P1"
      then have "j \<in> set (visited l)"
        and "spriteView (sprites c ! j) = None \<or> index (sprites c ! j) = None"
        by simp_all
      then show "?X" by (rule first)
    qed
    show "?P2 \<longrightarrow> ?Y"
    proof
      assume "?P2"
      then have "j \<in> set (scanned l)" and "spriteView (sprites c ! j) = None"
        by simp_all
      then show "?Y" by (rule second)
    qed
    show "?Z"
      by (intro ballI impI) (rule third; assumption)
  qed
qed

theorem runRemoval_fault_is_fatal_witness:
  "locals (runRemoval faultyCoordinator unlimitedBudget 1) =
     Some (the (locals (runRemoval faultyCoordinator unlimitedBudget 1))) \<and>
   eligible (sprites faultyCoordinator ! 0) \<and>
   visited (the (locals (runRemoval faultyCoordinator unlimitedBudget 1))) = [0] \<and>
   spriteView (sprites faultyCoordinator ! 0) = None \<and>
   highBound (toBeRemovedIndexRange faultyCoordinator) < length (sprites faultyCoordinator) \<and>
   thrownInFinally (runRemoval faultyCoordinator unlimitedBudget 1) = None \<and>
   thrownInTry (runRemoval faultyCoordinator unlimitedBudget 1) =
     Some (InternalError ''Sprite missing required properties'') \<and>
   thrown (runRemoval faultyCoordinator unlimitedBudget 1) =
     Some (InternalError ''Sprite missing required properties'') \<and>
   sprites (final (runRemoval faultyCoordinator unlimitedBudget 1)) ! 1 =
     sprites faultyCoordinator ! 1 \<and>
   eligible (sprites faultyCoordinator ! 2) \<and>
   covers (toBeRemovedIndexRange (final (runRemoval faultyCoordinator unlimitedBudget 1))) 2 \<and>
   covers (toBeRemovedTsRange (final (runRemoval faultyCoordinator unlimitedBudget 1)))
     (TransitionTimeMs (the (spriteView (sprites faultyCoordinator ! 2)))) \<and>
   queueRemovalTask (final (runRemoval faultyCoordinator unlimitedBudget 1)) =
     queueRemovalTask faultyCoordinator + 1 \<and>
   locals (runRemoval brokenCoordinator exhaustedBudget 1) =
     Some (the (locals (runRemoval brokenCoordinator exhaustedBudget 1))) \<and>
   eligible (sprites brokenCoordinator ! 1) \<and>
   scanned (the (locals (runRemoval brokenCoordinator exhaustedBudget 1))) = [1] \<and>
   spriteView (sprites brokenCoordinator ! 1) = None \<and>
   thrown (runRemoval brokenCoordinator exhaustedBudget 1) =
     Some (InternalError ''Sprite lacks a SpriteView'') \<and>
   queueTextureSync (final (runRemoval brokenCoordinator exhaustedBudget 1)) =
     queueTextureSync brokenCoordinator \<and>
   visited (the (locals (runRemoval brokenCoordinator exhaustedBudget 1))) = [0] \<and>
   due (elapsedTimeMs brokenCoordinator) (sprites brokenCoordinator ! 0) \<and>
   zeroed (sprites (final (runRemoval brokenCoordinator exhaustedBudget 1)) ! 0) \<and>
   lifecyclePhase (sprites (final (runRemoval brokenCoordinator exhaustedBudget 1)) ! 0) =
     NeedsTextureSync \<and>
   covers (needsTextureSyncIndexRange (final (runRemoval brokenCoordinator exhaustedBudget 1)))
     (the (index (sprites brokenCoordinator ! 0)))"
proof -
  let ?r1 = "runRemoval faultyCoordinator unlimitedBudget 1"
  let ?r2 = "runRemoval brokenCoordinator exhaustedBudget 1"
  have a1: "locals ?r1 = Some (the (locals ?r1))"
    and a2: "0 < length (sprites faultyCoordinator)"
    and a3: "eligible (sprites faultyCoordinator ! 0)"
    and a4: "visited (the (locals ?r1)) = [0]"
    and a5: "spriteView (sprites faultyCoordinator ! 0) = None"
    and a6: "thrownInFinally ?r1 = None"
    and a7: "highBound (toBeRemovedIndexRange faultyCoordinator) < length (sprites faultyCoordinator)"
    and a8: "eligible (sprites faultyCoordinator ! 2)"
    and a9: "highBound (toBeRemovedIndexRange faultyCoordinator) = 2"
    and a10: "length (sprites faultyCoordinator) = 3"
    and a11: "isDefined (toBeRemovedIndexRange (final ?r1))"
    by code_simp+
  have b1: "locals ?r2 = Some (the (locals ?r2))"
    and b2: "1 < length (sprites brokenCoordinator)"
    and b3: "eligible (sprites brokenCoordinator ! 1)"
    and b4: "scanned (the (locals ?r2)) = [1]"
    and b5: "spriteView (sprites brokenCoordinator ! 1) = None"
    and b6: "visited (the (locals ?r2)) = [0]"
    and b7: "due (elapsedTimeMs brokenCoordinator) (sprites brokenCoordinator ! 0)"
    and b8: "length (sprites brokenCoordinator) = 3"
    by code_simp+
  from runRemoval_fault_is_fatal [OF a1 a2 a3] a4 a5
  have A: "thrownInTry ?r1 = Some (InternalError ''Sprite missing required properties'')"
    "\<forall>k. 0 < k \<and> k < length (sprites faultyCoordinator) \<longrightarrow>
       sprites (final ?r1) ! k = sprites faultyCoordinator ! k"
    "\<forall>k. 0 < k \<and> k < iVar (the (locals ?r1)) \<and> eligible (sprites faultyCoordinator ! k) \<longrightarrow>
       covers (toBeRemovedIndexRange (final ?r1)) k \<and>
       covers (toBeRemovedTsRange (final ?r1))
         (TransitionTimeMs (the (spriteView (sprites faultyCoordinator ! k))))"
    "thrownInFinally ?r1 = None \<longrightarrow>
       thrown ?r1 = Some (InternalError ''Sprite missing required properties'') \<and>
       iVar (the (locals ?r1)) = Suc (highBound (toBeRemovedIndexRange faultyCoordinator)) \<and>
       queueTextureSync (final ?r1) = queueTextureSync faultyCoordinator +
         (if isDefined (needsTextureSyncIndexRange (final ?r1)) then 1 else 0) \<and>
       queueRemovalTask (final ?r1) = queueRemovalTask faultyCoordinator +
         (if isDefined (toBeRemovedIndexRange (final ?r1)) then 1 else 0)"
    by simp_all
  from A(4) a6 a9 a11
  have A4: "thrown ?r1 = Some (InternalError ''Sprite missing required properties'')"
    "iVar (the (locals ?r1)) = 3"
    "queueRemovalTask (final ?r1) = queueRemovalTask faultyCoordinator + 1"
    by simp_all
  from A(2) a10 have A2: "sprites (final ?r1) ! 1 = sprites faultyCoordinator ! 1"
    by simp
  from A(3) A4(2) a8
  have A3: "covers (toBeRemovedIndexRange (final ?r1)) 2"
    "covers (toBeRemovedTsRange (final ?r1))
       (TransitionTimeMs (the (spriteView (sprites faultyCoordinator ! 2))))"
    by simp_all
  from runRemoval_fault_is_fatal [OF b1 b2 b3] b4 b5
  have B: "thrown ?r2 = Some (InternalError ''Sprite lacks a SpriteView'')"
    "queueTextureSync (final ?r2) = queueTextureSync brokenCoordinator"
    by simp_all
  from runRemoval_fault_is_fatal [OF b1 b2 b3] b6 b7 b8
  have C: "zeroed (sprites (final ?r2) ! 0)"
    "lifecyclePhase (sprites (final ?r2) ! 0) = NeedsTextureSync"
    "covers (needsTextureSyncIndexRange (final ?r2)) (the (index (sprites brokenCoordinator ! 0)))"
    by simp_all
  show ?thesis
    by (intro conjI) (rule a1 a3 a4 a5 a7 a6 A(1) A4(1) A2 a8 A3 A4(3) b1 b3 b4 b5 B b6 b7 C)+
qed

theorem runRemoval_fault_is_fatal_counterexample:
  "covers (toBeRemovedIndexRange overrunCoordinator) 0 \<and>
   toBeRemoved (sprites overrunCoordinator ! 0) \<and>
   lifecyclePhase (sprites overrunCoordinator ! 0) = Rest \<and>
   spriteView (sprites overrunCoordinator ! 0) = None \<and>
   visited (the (locals (runRemoval overrunCoordinator unlimitedBudget 1))) = [0] \<and>
   thrownInTry (runRemoval overrunCoordinator unlimitedBudget 1) =
     Some (InternalError ''Sprite missing required properties'') \<and>
   highBound (toBeRemovedIndexRange overrunCoordinator) = 5 \<and>
   length (sprites overrunCoordinator) = 3 \<and>
   scanned (the (locals (runRemoval overrunCoordinator unlimitedBudget 1))) = [1, 2, 3] \<and>
   thrown (runRemoval overrunCoordinator unlimitedBudget 1) = Some TypeError \<and>
   scanned (the (locals (runRemoval brokenCoordinator exhaustedBudget 1))) = [1] \<and>
   toBeRemoved (sprites brokenCoordinator ! 1) \<and>
   lifecyclePhase (sprites brokenCoordinator ! 1) = Rest \<and>
   spriteView (sprites brokenCoordinator ! 1) = None \<and>
   thrown (runRemoval brokenCoordinator exhaustedBudget 1) =
     Some (InternalError ''Sprite lacks a SpriteView'') \<and>
   covers (toBeRemovedIndexRange brokenCoordinator) 2 \<and>
   toBeRemoved (sprites brokenCoordinator ! 2) \<and>
   lifecyclePhase (sprites brokenCoordinator ! 2) = Rest \<and>
   toBeRemovedIndexRange (final (runRemoval brokenCoordinator exhaustedBudget 1)) = None \<and>
   needsTextureSyncIndexRange (final (runRemoval brokenCoordinator exhaustedBudget 1)) =
     Some (0, 0) \<and>
   queueTextureSync (final (runRemoval brokenCoordinator exhaustedBudget 1)) =
     queueTextureSync brokenCoordinator \<and>
   queueRemovalTask (final (runRemoval brokenCoordinator exhaustedBudget 1)) =
     queueRemovalTask brokenCoordinator"
  by (intro conjI; code_simp)

text \<open>
  C8. \<^verbatim>\<open>runRemoval\<close>, however it ends, changes the lifecycle phase of a sprite only from
  \<^verbatim>\<open>Rest\<close> to \<^verbatim>\<open>NeedsTextureSync\<close>, which the lifecycle table allows, and only for a sprite
  that is marked \<^verbatim>\<open>toBeRemoved\<close> and whose transition time is not after the current time;
  every other phase is as it was.
\<close>

theorem runRemoval_phase:
  "j < length (sprites c) \<longrightarrow>
   lifecyclePhase (sprites (final (runRemoval c remaining stepsBetweenChecks)) ! j) =
     lifecyclePhase (sprites c ! j) \<or>
   legalTransition (lifecyclePhase (sprites c ! j))
     (lifecyclePhase (sprites (final (runRemoval c remaining stepsBetweenChecks)) ! j)) \<and>
   lifecyclePhase (sprites c ! j) = Rest \<and>
   lifecyclePhase (sprites (final (runRemoval c remaining stepsBetweenChecks)) ! j) =
     NeedsTextureSync \<and>
   toBeRemoved (sprites c ! j) \<and>
   (\<exists>v. spriteView (sprites c ! j) = Some v \<and> TransitionTimeMs v \<le> elapsedTimeMs c)"
  using runRemoval_sprites [of c remaining stepsBetweenChecks j]
  by (auto simp: due_def eligible_def flashed_def split: option.splits)

theorem runRemoval_phase_witness:
  "(0::nat) < length (sprites exampleCoordinator) \<and>
   lifecyclePhase (sprites exampleCoordinator ! 0) = Rest \<and>
   lifecyclePhase (sprites (final (runRemoval exampleCoordinator unlimitedBudget 1)) ! 0) =
     NeedsTextureSync \<and>
   legalTransition (lifecyclePhase (sprites exampleCoordinator ! 0))
     (lifecyclePhase (sprites (final (runRemoval exampleCoordinator unlimitedBudget 1)) ! 0)) \<and>
   toBeRemoved (sprites exampleCoordinator ! 0)"
proof -
  have "(0::nat) < length (sprites exampleCoordinator)"
    by (simp add: exampleCoordinator_def)
  moreover have "lifecyclePhase (sprites (final (runRemoval exampleCoordinator unlimitedBudget 1)) ! 0) \<noteq>
      lifecyclePhase (sprites exampleCoordinator ! 0)"
    by code_simp
  ultimately show ?thesis
    using runRemoval_phase [of 0 exampleCoordinator unlimitedBudget 1] by blast
qed

text \<open>
  C9. One invocation of \<^verbatim>\<open>runRemoval\<close>, however it ends, leaves the sprite array at its
  length, and leaves every sprite that is not both marked \<^verbatim>\<open>toBeRemoved\<close> and in the phase
  \<^verbatim>\<open>Rest\<close>, and every sprite whose position the to-be-removed index range does not cover,
  with all its properties (view contents, zeroed flag, phase, removal mark) as they were.
\<close>

theorem runRemoval_frame:
  "length (sprites (final (runRemoval c remaining stepsBetweenChecks))) = length (sprites c) \<and>
   (j < length (sprites c) \<and>
    (\<not> eligible (sprites c ! j) \<or> \<not> covers (toBeRemovedIndexRange c) j) \<longrightarrow>
    sprites (final (runRemoval c remaining stepsBetweenChecks)) ! j = sprites c ! j)"
  using runRemoval_sprites [of c remaining stepsBetweenChecks j]
  by (auto dest: due_eligible)

theorem runRemoval_frame_witness:
  "(1::nat) < length (sprites (exampleCoordinator\<lparr>toBeRemovedIndexRange := Some (0, 0)\<rparr>)) \<and>
   \<not> covers (toBeRemovedIndexRange (exampleCoordinator\<lparr>toBeRemovedIndexRange := Some (0, 0)\<rparr>)) 1 \<and>
   sprites (final (runRemoval (exampleCoordinator\<lparr>toBeRemovedIndexRange := Some (0, 0)\<rparr>)
      unlimitedBudget 1)) ! 1 =
   sprites (exampleCoordinator\<lparr>toBeRemovedIndexRange := Some (0, 0)\<rparr>) ! 1"
proof -
  have "(1::nat) < length (sprites (exampleCoordinator\<lparr>toBeRemovedIndexRange := Some (0, 0)\<rparr>))"
    and "\<not> covers (toBeRemovedIndexRange (exampleCoordinator\<lparr>toBeRemovedIndexRange := Some (0, 0)\<rparr>)) 1"
    by (simp_all add: exampleCoordinator_def covers_def)
  with runRemoval_frame [of "exampleCoordinator\<lparr>toBeRemovedIndexRange := Some (0, 0)\<rparr>" unlimitedBudget 1 1]
  show ?thesis by blast
qed

text \<open>
  C10. \<^verbatim>\<open>runRemoval\<close> keeps the to-be-removed index range and the to-be-removed timestamp
  range defined or undefined together: when they agree at entry they agree at the exit,
  with or without an exception; and every exit other than the failure of the entry test
  leaves them in agreement, since both were defined at entry, both are cleared, and each
  is widened only together with the other.
\<close>

theorem runRemoval_ranges_together:
  "(isDefined (toBeRemovedIndexRange c) = isDefined (toBeRemovedTsRange c) \<or>
    thrown (runRemoval c remaining stepsBetweenChecks) \<noteq>
      Some (InternalError ''No sprites are queued for removal'')) \<longrightarrow>
   isDefined (toBeRemovedIndexRange (final (runRemoval c remaining stepsBetweenChecks))) =
   isDefined (toBeRemovedTsRange (final (runRemoval c remaining stepsBetweenChecks)))"
proof (cases "\<not> isDefined (toBeRemovedIndexRange c) \<or> \<not> isDefined (toBeRemovedTsRange c)")
  case True
  note r = runRemoval_undefined [OF True, of remaining stepsBetweenChecks]
  show ?thesis
    by (simp add: r)
next
  case defined: False
  show ?thesis
  proof (cases "elapsedTimeMs c < lowBound (toBeRemovedTsRange c)")
    case True
    with defined show ?thesis
      by (simp add: runRemoval_early)
  next
    case False
    with defined obtain e1 l1 e2 l2 l where
      main: "mainLoop remaining stepsBetweenChecks (elapsedTimeMs c)
         (highBound (toBeRemovedIndexRange c))
         \<lparr>coordinator = c\<lparr>toBeRemovedIndexRange := None, toBeRemovedTsRange := None\<rparr>,
          indexVar = lowBound (toBeRemovedIndexRange c), step = 1, remainingCalls = 0,
          iVar = lowBound (toBeRemovedIndexRange c), visited = [], scanned = [], readded = []\<rparr>
         = (e1, l1)"
      and cleanup: "cleanupLoop (highBound (toBeRemovedIndexRange c)) (l1\<lparr>iVar := indexVar l1\<rparr>)
         = (e2, l2)"
      and final: "final (runRemoval c remaining stepsBetweenChecks) =
         (coordinator l2)
           \<lparr>queueTextureSync := queueTextureSync (coordinator l2) +
              (if e2 = None \<and> isDefined (needsTextureSyncIndexRange (coordinator l2)) then 1 else 0),
            queueRemovalTask := queueRemovalTask (coordinator l2) +
              (if e2 = None \<and> isDefined (toBeRemovedIndexRange (coordinator l2)) then 1 else 0)\<rparr>"
      by (auto elim: runRemoval_main [of c remaining stepsBetweenChecks])
    from mainLoop_together [OF main]
    have "isDefined (toBeRemovedIndexRange (coordinator l1)) =
          isDefined (toBeRemovedTsRange (coordinator l1))"
      by (simp add: isDefined_def)
    with cleanupLoop_together [OF cleanup]
    have "isDefined (toBeRemovedIndexRange (coordinator l2)) =
          isDefined (toBeRemovedTsRange (coordinator l2))"
      by simp
    with final show ?thesis by simp
  qed
qed

theorem runRemoval_ranges_together_witness:
  "isDefined (toBeRemovedIndexRange exampleCoordinator) =
     isDefined (toBeRemovedTsRange exampleCoordinator) \<and>
   isDefined (toBeRemovedIndexRange (final (runRemoval exampleCoordinator exhaustedBudget 1))) =
     isDefined (toBeRemovedTsRange (final (runRemoval exampleCoordinator exhaustedBudget 1)))"
proof -
  have "isDefined (toBeRemovedIndexRange exampleCoordinator) =
        isDefined (toBeRemovedTsRange exampleCoordinator)"
    by (simp add: exampleCoordinator_def isDefined_def)
  with runRemoval_ranges_together [of exampleCoordinator exhaustedBudget 1]
  show ?thesis by blast
qed

end
